theory Spec2Isabelle
  imports Complex_Main "HOL-Library.Word"
begin

unbundle bit_operations_syntax

section \<open>Python values\<close>

text \<open>
  The documents of the primary store, the payloads of the vector store and the backup
  artifacts are loosely typed Python values (what \<^verbatim>\<open>json.load\<close> and the store
  drivers hand to the code). A dict keeps its insertion order, so it is an association
  list; floats are idealised as reals; a string is its list of bytes. \<open>PObjectId\<close> is
  the driver's \<^verbatim>\<open>ObjectId\<close>, carrying its hexadecimal text.
\<close>

datatype pyval =
    PNone
  | PBool bool
  | PInt int
  | PFloat real
  | PStr string
  | PList "pyval list"
  | PDict "(string \<times> pyval) list"
  | PObjectId string

datatype py_error =
    TypeError
  | KeyError string
  | ValueError
  | AttributeError
  | FileNotFoundError
  | DuplicateKeyError
  | Exception string


text \<open>\<^verbatim>\<open>a in b\<close> on strings: \<open>a\<close> occurs in \<open>b\<close> as a contiguous run.\<close>

fun empieza_con :: "string \<Rightarrow> string \<Rightarrow> bool" where
  "empieza_con [] v = True"
| "empieza_con (c # q) [] = False"
| "empieza_con (c # q) (d # v) = (c = d \<and> empieza_con q v)"

fun contiene :: "string \<Rightarrow> string \<Rightarrow> bool" where
  "contiene q [] = (q = [])"
| "contiene q (d # v) = (empieza_con q (d # v) \<or> contiene q v)"



text \<open>Decimal text of an integer, as \<^verbatim>\<open>str(n)\<close> gives it.\<close>

function str_pos :: "int \<Rightarrow> string" where
  "str_pos n =
     (if n < 10 then [''0123456789'' ! nat n]
      else str_pos (n div 10) @ [''0123456789'' ! nat (n mod 10)])"
  by pat_completeness auto
termination
  by (relation "measure nat") auto

definition str_int :: "int \<Rightarrow> string" where
  "str_int i = (if i < 0 then CHR ''-'' # str_pos (- i) else str_pos i)"

text \<open>
  \<^verbatim>\<open>repr\<close> of a string: single quotes, unless the text holds a single quote and no
  double quote; the quote in use and the backslash are escaped, tab, newline and return
  are written with their letters and the other control bytes as \<^verbatim>\<open>\xhh\<close>.
\<close>

definition hex_digit :: "nat \<Rightarrow> char" where
  "hex_digit n = ''0123456789abcdef'' ! (n mod 16)"






text \<open>\<^verbatim>\<open>k in v\<close>, \<^verbatim>\<open>v[k]\<close> and \<^verbatim>\<open>len(v)\<close> for a string key \<open>k\<close>.\<close>

fun py_in :: "string \<Rightarrow> pyval \<Rightarrow> py_error + bool" where
  "py_in k (PDict d) = Inr (k \<in> set (map fst d))"
| "py_in k (PList xs) = Inr (PStr k \<in> set xs)"
| "py_in k (PStr s) = Inr (contiene k s)"
| "py_in k _ = Inl TypeError"

fun py_getitem :: "pyval \<Rightarrow> string \<Rightarrow> py_error + pyval" where
  "py_getitem (PDict d) k = (case map_of d k of None \<Rightarrow> Inl (KeyError k) | Some v \<Rightarrow> Inr v)"
| "py_getitem _ k = Inl TypeError"

fun py_len :: "pyval \<Rightarrow> py_error + nat" where
  "py_len (PDict d) = Inr (length d)"
| "py_len (PList xs) = Inr (length xs)"
| "py_len (PStr s) = Inr (length s)"
| "py_len _ = Inl TypeError"

text \<open>\<^verbatim>\<open>n != v\<close> for an integer \<open>n\<close>: numbers compare by value, a bool is 0 or 1.\<close>

fun py_int_ne :: "nat \<Rightarrow> pyval \<Rightarrow> bool" where
  "py_int_ne n (PInt m) = (int n \<noteq> m)"
| "py_int_ne n (PFloat r) = (real n \<noteq> r)"
| "py_int_ne n (PBool b) = (n \<noteq> (if b then 1 else 0))"
| "py_int_ne n _ = True"

section \<open>models.py: ImagenDocumento.validar_coordenadas\<close>





section \<open>models.py: ImagenDocumento, ResultadoBusqueda\<close>

text \<open>
  The fields of the pydantic model, in the order of their declaration. The field
  \<^verbatim>\<open>id\<close> (alias \<^verbatim>\<open>_id\<close>) is \<open>id_doc\<close> here; \<open>model_fields_set\<close> is pydantic's record
  of the fields that were given a value.
\<close>

record imagen_documento =
  id_doc :: "string option"
  id_hash :: "string option"
  hash_sha512 :: string
  nombre :: string
  ruta :: string
  ruta_alternativa :: "string option"
  ancho :: int
  alto :: int
  peso :: real
  fecha_creacion_dia :: string
  fecha_creacion_mes :: string
  fecha_creacion_anio :: string
  fecha_creacion_hora :: string
  fecha_creacion_minuto :: string
  fecha_procesamiento_dia :: string
  fecha_procesamiento_mes :: string
  fecha_procesamiento_anio :: string
  fecha_procesamiento_hora :: string
  fecha_procesamiento_minuto :: string
  coordenadas :: pyval
  barrio :: string
  calle :: string
  ciudad :: string
  cp :: string
  pais :: string
  objeto_procesado :: bool
  objetos :: "string list"
  personas :: "string list"
  embedding :: "real list option"
  descripcion_semantica :: "string option"
  qdrant :: bool
  model_fields_set :: "string list"

definition get_fecha_creacion :: "imagen_documento \<Rightarrow> string" where
  "get_fecha_creacion d =
     fecha_creacion_dia d @ ''/'' @ fecha_creacion_mes d @ ''/'' @ fecha_creacion_anio d
       @ '' '' @ fecha_creacion_hora d @ '':'' @ fecha_creacion_minuto d"

definition get_fecha_procesamiento :: "imagen_documento \<Rightarrow> string" where
  "get_fecha_procesamiento d =
     fecha_procesamiento_dia d @ ''/'' @ fecha_procesamiento_mes d @ ''/''
       @ fecha_procesamiento_anio d @ '' '' @ fecha_procesamiento_hora d @ '':''
       @ fecha_procesamiento_minuto d"

record resultado_busqueda =
  documento :: imagen_documento
  similitud :: real
  tipo_busqueda :: string

section \<open>database.py: the regex fallback score\<close>




section \<open>busqueda_semantica.py: buscar_hibrida\<close>

text \<open>
  \<^verbatim>\<open>
  resultados_combinados = {}
  for resultado in resultados_texto + resultados_semanticos:
      doc_id = resultado.documento.id_hash
      if doc_id not in resultados_combinados:
          resultados_combinados[doc_id] = resultado
      else:
          if resultado.similitud > resultados_combinados[doc_id].similitud:
              resultados_combinados[doc_id] = resultado
  resultados_finales = list(resultados_combinados.values())
  resultados_finales.sort(key=lambda x: x.similitud, reverse=True)
  resultados_finales = resultados_finales[:consulta.limite]
  \<close>
  A dict keeps the order in which its keys were first stored, and storing under a key
  it already has replaces the value in place.
\<close>

fun dict_set :: "'k \<Rightarrow> 'v \<Rightarrow> ('k \<times> 'v) list \<Rightarrow> ('k \<times> 'v) list" where
  "dict_set k v [] = [(k, v)]"
| "dict_set k v (kv # d) = (if fst kv = k then (k, v) # d else kv # dict_set k v d)"

type_synonym combinados = "(string option \<times> resultado_busqueda) list"

fun combinar :: "resultado_busqueda list \<Rightarrow> combinados \<Rightarrow> combinados" where
  "combinar [] resultados_combinados = resultados_combinados"
| "combinar (resultado # rs) resultados_combinados =
     (let doc_id = id_hash (documento resultado) in
      combinar rs
        (case map_of resultados_combinados doc_id of
           None \<Rightarrow> dict_set doc_id resultado resultados_combinados
         | Some previo \<Rightarrow>
             if similitud resultado > similitud previo
             then dict_set doc_id resultado resultados_combinados
             else resultados_combinados))"

text \<open>\<^verbatim>\<open>xs[:n]\<close>: a negative \<open>n\<close> counts from the end.\<close>

definition py_hasta :: "int \<Rightarrow> 'a list \<Rightarrow> 'a list" where
  "py_hasta n xs = (if n < 0 then take (nat (int (length xs) + n)) xs else take (nat n) xs)"

text \<open>
  \<^verbatim>\<open>sort(key=..., reverse=True)\<close> is stable: entries of equal score keep their order.
  That is the stable ascending sort on the negated score.
\<close>

definition ordenar_desc :: "resultado_busqueda list \<Rightarrow> resultado_busqueda list" where
  "ordenar_desc rs = sort_key (\<lambda>r. - similitud r) rs"

text \<open>
  The two searches are the arguments, each with its outcome: an exception of either one
  leaves \<open>buscar_hibrida\<close> through its \<^verbatim>\<open>except ...: raise\<close>, the text search first.
\<close>

definition buscar_hibrida ::
  "py_error + resultado_busqueda list \<Rightarrow> py_error + resultado_busqueda list \<Rightarrow> int
     \<Rightarrow> py_error + resultado_busqueda list" where
  "buscar_hibrida texto semantica limite =
     (case texto of
        Inl e \<Rightarrow> Inl e
      | Inr resultados_texto \<Rightarrow>
          (case semantica of
             Inl e \<Rightarrow> Inl e
           | Inr resultados_semanticos \<Rightarrow>
               Inr (py_hasta limite
                     (ordenar_desc
                        (map snd (combinar (resultados_texto @ resultados_semanticos) []))))))"

section \<open>database.py and qdrant_manager.py: validar_backup\<close>

text \<open>
  A backup file as the validator sees it: what \<^verbatim>\<open>json.load\<close> makes of it, the
  SHA-256 digest of its bytes and its size. \<open>None\<close> for the file stands for a path
  where \<^verbatim>\<open>os.path.exists\<close> is false.
\<close>

datatype carga = JSONDecodeError string | ErrorLectura py_error | Cargado pyval

record archivo =
  json_load :: carga
  sha256_hexdigest :: string
  getsize :: nat

datatype motivo =
    ArchivoNoEncontrado
  | ErrorFormatoJSON string
  | EstructuraInvalida
  | CampoFaltante string
  | Inconsistencia pyval nat
  | DocumentoNoDict nat
  | DocumentoSinId nat
  | ErrorInesperado py_error

record validacion_info =
  v_tamano_archivo :: nat
  v_hash_sha256 :: string
  v_metadata :: pyval
  v_total :: nat

datatype validacion = Invalido motivo | Valido validacion_info

text \<open>The loop over \<open>campos_requeridos\<close>: the first field missing from the metadata.\<close>

fun campo_faltante :: "string list \<Rightarrow> pyval \<Rightarrow> py_error + string option" where
  "campo_faltante [] metadata = Inr None"
| "campo_faltante (campo # cs) metadata =
     (case py_in campo metadata of
        Inl e \<Rightarrow> Inl e
      | Inr presente \<Rightarrow> if \<not> presente then Inr (Some campo) else campo_faltante cs metadata)"

text \<open>What a \<^verbatim>\<open>for\<close> loop gets from a value that has a length.\<close>

fun py_iter :: "pyval \<Rightarrow> pyval list" where
  "py_iter (PList xs) = xs"
| "py_iter (PDict d) = map (\<lambda>kv. PStr (fst kv)) d"
| "py_iter (PStr s) = map (\<lambda>c. PStr [c]) s"
| "py_iter _ = []"

fun validar_documentos :: "nat \<Rightarrow> pyval list \<Rightarrow> motivo option" where
  "validar_documentos i [] = None"
| "validar_documentos i (doc # ds) =
     (case doc of
        PDict d \<Rightarrow>
          if ''_id'' \<notin> set (map fst d) then Some (DocumentoSinId i)
          else validar_documentos (Suc i) ds
      | _ \<Rightarrow> Some (DocumentoNoDict i))"

text \<open>
  The part both validators share, after the file was found and parsed: the two top-level
  keys, the required metadata fields, the declared count against the length of the
  records, then (MongoDB only, \<open>revisar_documentos\<close>) the shape of each record. Any
  exception on the way is caught by the outer \<^verbatim>\<open>except\<close> and reported.
  The digest is computed last and returned; nothing is compared with it.
\<close>

definition validar_cargado ::
  "string \<Rightarrow> string list \<Rightarrow> string \<Rightarrow> bool \<Rightarrow> archivo \<Rightarrow> pyval \<Rightarrow> validacion" where
  "validar_cargado clave_registros campos_requeridos campo_total revisar_documentos a backup_data =
     (case py_in ''metadata'' backup_data of
        Inl e \<Rightarrow> Invalido (ErrorInesperado e)
      | Inr hay_metadata \<Rightarrow>
     (case (if \<not> hay_metadata then Inr False else py_in clave_registros backup_data) of
        Inl e \<Rightarrow> Invalido (ErrorInesperado e)
      | Inr completo \<Rightarrow>
     if \<not> completo then Invalido EstructuraInvalida else
     (case py_getitem backup_data ''metadata'' of
        Inl e \<Rightarrow> Invalido (ErrorInesperado e)
      | Inr metadata \<Rightarrow>
     (case py_getitem backup_data clave_registros of
        Inl e \<Rightarrow> Invalido (ErrorInesperado e)
      | Inr documents_data \<Rightarrow>
     (case campo_faltante campos_requeridos metadata of
        Inl e \<Rightarrow> Invalido (ErrorInesperado e)
      | Inr (Some campo) \<Rightarrow> Invalido (CampoFaltante campo)
      | Inr None \<Rightarrow>
     (case py_len documents_data of
        Inl e \<Rightarrow> Invalido (ErrorInesperado e)
      | Inr n \<Rightarrow>
     (case py_getitem metadata campo_total of
        Inl e \<Rightarrow> Invalido (ErrorInesperado e)
      | Inr declarado \<Rightarrow>
     if py_int_ne n declarado then Invalido (Inconsistencia declarado n) else
     (case (if revisar_documentos then validar_documentos 0 (py_iter documents_data) else None) of
        Some m \<Rightarrow> Invalido m
      | None \<Rightarrow>
          Valido \<lparr> v_tamano_archivo = getsize a, v_hash_sha256 = sha256_hexdigest a,
                   v_metadata = metadata, v_total = n \<rparr>))))))))"

definition validar_archivo ::
  "string \<Rightarrow> string list \<Rightarrow> string \<Rightarrow> bool \<Rightarrow> archivo option \<Rightarrow> validacion" where
  "validar_archivo clave_registros campos_requeridos campo_total revisar_documentos f =
     (case f of
        None \<Rightarrow> Invalido ArchivoNoEncontrado
      | Some a \<Rightarrow>
          (case json_load a of
             JSONDecodeError msg \<Rightarrow> Invalido (ErrorFormatoJSON msg)
           | ErrorLectura e \<Rightarrow> Invalido (ErrorInesperado e)
           | Cargado backup_data \<Rightarrow>
               validar_cargado clave_registros campos_requeridos campo_total
                 revisar_documentos a backup_data))"

text \<open>\<^verbatim>\<open>DatabaseManager.validar_backup\<close> and \<^verbatim>\<open>QdrantManager.validar_backup\<close>.\<close>

definition validar_backup_mongodb :: "archivo option \<Rightarrow> validacion" where
  "validar_backup_mongodb =
     validar_archivo ''documents''
       [''collection_name'', ''database_name'', ''backup_date'', ''total_documents'']
       ''total_documents'' True"

definition validar_backup_qdrant :: "archivo option \<Rightarrow> validacion" where
  "validar_backup_qdrant =
     validar_archivo ''vectors''
       [''collection_name'', ''backup_date'', ''total_vectors'', ''vector_size'']
       ''total_vectors'' False"

section \<open>Notions used to state the properties of the fusion\<close>

text \<open>The key of a result, and one turn of the fusion loop.\<close>

definition clave :: "resultado_busqueda \<Rightarrow> string option" where
  "clave r = id_hash (documento r)"

definition paso_combinar :: "resultado_busqueda \<Rightarrow> combinados \<Rightarrow> combinados" where
  "paso_combinar r d =
     (case map_of d (clave r) of
        None \<Rightarrow> dict_set (clave r) r d
      | Some previo \<Rightarrow> if similitud r > similitud previo then dict_set (clave r) r d else d)"

text \<open>
  A dict is well formed for a set of results seen so far when each key holds a result
  of that key, taken from the results seen, whose score none of them exceeds.
\<close>

definition bien_formado :: "combinados \<Rightarrow> resultado_busqueda set \<Rightarrow> bool" where
  "bien_formado d vistos \<longleftrightarrow>
     (\<forall>k r. map_of d k = Some r \<longrightarrow>
        r \<in> vistos \<and> clave r = k
        \<and> (\<forall>x \<in> vistos. clave x = k \<longrightarrow> similitud x \<le> similitud r))
     \<and> (\<forall>x \<in> vistos. map_of d (clave x) \<noteq> None)"

section \<open>Sample values\<close>

text \<open>A record of the collection, and the same record found by both searches.\<close>

definition documento_ejemplo :: imagen_documento where
  "documento_ejemplo =
     \<lparr> id_doc = Some ''abc'', id_hash = Some ''abc'', hash_sha512 = ''abc'',
       nombre = ''playa.jpg'', ruta = ''/fotos/playa.jpg'', ruta_alternativa = None,
       ancho = 640, alto = 480, peso = 1024,
       fecha_creacion_dia = ''1'', fecha_creacion_mes = ''2'', fecha_creacion_anio = ''2024'',
       fecha_creacion_hora = ''10'', fecha_creacion_minuto = ''30'',
       fecha_procesamiento_dia = ''3'', fecha_procesamiento_mes = ''4'',
       fecha_procesamiento_anio = ''2025'', fecha_procesamiento_hora = ''11'',
       fecha_procesamiento_minuto = ''45'',
       coordenadas = PNone, barrio = '''', calle = '''', ciudad = ''Vigo'', cp = '''',
       pais = ''ES'', objeto_procesado = True, objetos = [''dog''], personas = [],
       embedding = None, descripcion_semantica = None, qdrant = False,
       model_fields_set = [''id'', ''id_hash'', ''hash_sha512'', ''nombre'', ''ruta''] \<rparr>"

text \<open>No float occurs in the samples; this stands for the interpreter's float text there.\<close>

definition sin_formato :: "real \<Rightarrow> string" where
  "sin_formato r = []"

definition resultado_texto_ejemplo :: resultado_busqueda where
  "resultado_texto_ejemplo =
     \<lparr> documento = documento_ejemplo, similitud = 0.4, tipo_busqueda = ''texto'' \<rparr>"

definition resultado_semantico_ejemplo :: resultado_busqueda where
  "resultado_semantico_ejemplo =
     \<lparr> documento = documento_ejemplo, similitud = 0.9, tipo_busqueda = ''semantica'' \<rparr>"

text \<open>
  A backup of one record as \<^verbatim>\<open>crear_backup_coleccion\<close> writes it, and the same file
  after the name of the record was changed in it: another content, another digest.
\<close>

definition metadata_ejemplo :: pyval where
  "metadata_ejemplo =
     PDict [(''collection_name'', PStr ''imagenes_2''), (''database_name'', PStr ''album''),
            (''backup_date'', PStr ''2025-01-01T10:00:00''), (''total_documents'', PInt 1),
            (''mongodb_version'', PStr ''1.0'')]"

definition backup_original :: archivo where
  "backup_original =
     \<lparr> json_load = Cargado (PDict [(''metadata'', metadata_ejemplo),
           (''documents'', PList [PDict [(''_id'', PStr ''abc''), (''nombre'', PStr ''playa.jpg'')]])]),
       sha256_hexdigest = ''9f86d081884c7d659a2feaa0c55ad015a3bf4f1b2b0b822cd15d6c15b0f00a08'',
       getsize = 310 \<rparr>"

definition backup_alterado :: archivo where
  "backup_alterado =
     \<lparr> json_load = Cargado (PDict [(''metadata'', metadata_ejemplo),
           (''documents'', PList [PDict [(''_id'', PStr ''abc''), (''nombre'', PStr ''monte.jpg'')]])]),
       sha256_hexdigest = ''60303ae22b998861bce3b28f33eec1be758a213c86c93c076dbe9f558c11c752'',
       getsize = 310 \<rparr>"

definition backup_corto :: archivo where
  "backup_corto =
     \<lparr> json_load = Cargado (PDict [(''metadata'', metadata_ejemplo), (''documents'', PList [])]),
       sha256_hexdigest = ''fd61a03af4f77d870fc21e05e7e80678095c92d808cfb3b5c279ee04c74aca13'',
       getsize = 250 \<rparr>"

text \<open>Whether a validation result reports the file valid.\<close>

fun es_valido :: "validacion \<Rightarrow> bool" where
  "es_valido (Valido info) = True"
| "es_valido (Invalido m) = False"

section \<open>hashlib.md5\<close>

text \<open>
  The vector store manager derives its numeric ids from the MD5 digest of the key, so
  MD5 (RFC 1321) is part of the model: 32-bit words, little-endian, 64 steps per block
  of 64 bytes.
\<close>

type_synonym u32 = "32 word"

definition md5_K :: "u32 list" where
  "md5_K =
     [0xd76aa478, 0xe8c7b756, 0x242070db, 0xc1bdceee, 0xf57c0faf, 0x4787c62a, 0xa8304613,
      0xfd469501, 0x698098d8, 0x8b44f7af, 0xffff5bb1, 0x895cd7be, 0x6b901122, 0xfd987193,
      0xa679438e, 0x49b40821, 0xf61e2562, 0xc040b340, 0x265e5a51, 0xe9b6c7aa, 0xd62f105d,
      0x02441453, 0xd8a1e681, 0xe7d3fbc8, 0x21e1cde6, 0xc33707d6, 0xf4d50d87, 0x455a14ed,
      0xa9e3e905, 0xfcefa3f8, 0x676f02d9, 0x8d2a4c8a, 0xfffa3942, 0x8771f681, 0x6d9d6122,
      0xfde5380c, 0xa4beea44, 0x4bdecfa9, 0xf6bb4b60, 0xbebfbc70, 0x289b7ec6, 0xeaa127fa,
      0xd4ef3085, 0x04881d05, 0xd9d4d039, 0xe6db99e5, 0x1fa27cf8, 0xc4ac5665, 0xf4292244,
      0x432aff97, 0xab9423a7, 0xfc93a039, 0x655b59c3, 0x8f0ccc92, 0xffeff47d, 0x85845dd1,
      0x6fa87e4f, 0xfe2ce6e0, 0xa3014314, 0x4e0811a1, 0xf7537e82, 0xbd3af235, 0x2ad7d2bb,
      0xeb86d391]"

definition md5_s :: "nat list" where
  "md5_s =
     [7, 12, 17, 22, 7, 12, 17, 22, 7, 12, 17, 22, 7, 12, 17, 22,
      5, 9, 14, 20, 5, 9, 14, 20, 5, 9, 14, 20, 5, 9, 14, 20,
      4, 11, 16, 23, 4, 11, 16, 23, 4, 11, 16, 23, 4, 11, 16, 23,
      6, 10, 15, 21, 6, 10, 15, 21, 6, 10, 15, 21, 6, 10, 15, 21]"

definition md5_mix :: "nat \<Rightarrow> u32 \<Rightarrow> u32 \<Rightarrow> u32 \<Rightarrow> u32" where
  "md5_mix i b c d =
     (if i < 16 then (b AND c) OR (NOT b AND d)
      else if i < 32 then (d AND b) OR (NOT d AND c)
      else if i < 48 then b XOR c XOR d
      else c XOR (b OR NOT d))"

definition md5_idx :: "nat \<Rightarrow> nat" where
  "md5_idx i =
     (if i < 16 then i
      else if i < 32 then (5 * i + 1) mod 16
      else if i < 48 then (3 * i + 5) mod 16
      else (7 * i) mod 16)"

type_synonym md5_state = "u32 \<times> u32 \<times> u32 \<times> u32"

fun md5_step :: "u32 list \<Rightarrow> md5_state \<Rightarrow> nat \<Rightarrow> md5_state" where
  "md5_step m (a, b, c, d) i =
     (d, b + word_rotl (md5_s ! i) (md5_mix i b c d + a + md5_K ! i + m ! md5_idx i), b, c)"

fun le_word :: "8 word list \<Rightarrow> u32" where
  "le_word [] = 0"
| "le_word (x # xs) = ucast x + push_bit 8 (le_word xs)"

fun trozos :: "nat \<Rightarrow> 'a list \<Rightarrow> 'a list list" where
  "trozos n [] = []"
| "trozos n (x # xs) =
     (if n = 0 then [] else take n (x # xs) # trozos n (drop n (x # xs)))"

definition md5_block :: "md5_state \<Rightarrow> 8 word list \<Rightarrow> md5_state" where
  "md5_block st blk =
     (case st of (a0, b0, c0, d0) \<Rightarrow>
        (case foldl (md5_step (map le_word (trozos 4 blk))) st [0..<64] of
           (a, b, c, d) \<Rightarrow> (a0 + a, b0 + b, c0 + c, d0 + d)))"

definition le_bytes :: "nat \<Rightarrow> 'a::len word \<Rightarrow> 8 word list" where
  "le_bytes k w = map (\<lambda>i. ucast (drop_bit (8 * i) w)) [0..<k]"

definition md5_pad :: "8 word list \<Rightarrow> 8 word list" where
  "md5_pad bs =
     bs @ [0x80] @ replicate ((119 - length bs mod 64) mod 64) 0
        @ le_bytes 8 (8 * of_nat (length bs) :: 64 word)"

definition md5_digest :: "8 word list \<Rightarrow> 8 word list" where
  "md5_digest bs =
     (case foldl md5_block (0x67452301, 0xefcdab89, 0x98badcfe, 0x10325476)
             (trozos 64 (md5_pad bs)) of
        (a, b, c, d) \<Rightarrow> concat (map (le_bytes 4) [a, b, c, d]))"

definition hexdigest :: "8 word list \<Rightarrow> string" where
  "hexdigest bs =
     concat (map (\<lambda>b. [hex_digit (unat b div 16), hex_digit (unat b mod 16)]) bs)"

definition encode :: "string \<Rightarrow> 8 word list" where
  "encode s = map (\<lambda>c. of_nat (of_char c)) s"

definition md5_hexdigest :: "string \<Rightarrow> string" where
  "md5_hexdigest s = hexdigest (md5_digest (encode s))"

text \<open>\<^verbatim>\<open>int(s, 16)\<close> on a text of hexadecimal digits; anything else is a ValueError.\<close>

definition valor_hex :: "char \<Rightarrow> int option" where
  "valor_hex c =
     (let n = (of_char c :: int) in
      if 48 \<le> n \<and> n \<le> 57 then Some (n - 48)
      else if 97 \<le> n \<and> n \<le> 102 then Some (n - 87)
      else if 65 \<le> n \<and> n \<le> 70 then Some (n - 55)
      else None)"

fun int_hex_desde :: "int \<Rightarrow> string \<Rightarrow> py_error + int" where
  "int_hex_desde acc [] = Inr acc"
| "int_hex_desde acc (c # cs) =
     (case valor_hex c of None \<Rightarrow> Inl ValueError | Some v \<Rightarrow> int_hex_desde (16 * acc + v) cs)"

definition int_hex :: "string \<Rightarrow> py_error + int" where
  "int_hex s = (if s = [] then Inl ValueError else int_hex_desde 0 s)"

section \<open>qdrant_manager.py: the numeric id of each operation\<close>

text \<open>
  \<^verbatim>\<open>insertar_vector\<close>, \<^verbatim>\<open>obtener_por_id\<close> and \<^verbatim>\<open>actualizar_vector\<close>:
  \<^verbatim>\<open>
  hash_md5 = hashlib.md5(doc_id.encode()).hexdigest()
  id_numerico = int(hash_md5[:8], 16)
  \<close>
  \<^verbatim>\<open>eliminar_vector\<close>:
  \<^verbatim>\<open>
  id_numerico = int(hashlib.md5(doc_id.encode()).hexdigest(), 16)
  \<close>
  The key is an optional string: on \<^verbatim>\<open>None\<close> the call of \<^verbatim>\<open>encode\<close> raises.
\<close>

definition id_insertar :: "string option \<Rightarrow> py_error + int" where
  "id_insertar id_hash_doc =
     (case id_hash_doc of
        None \<Rightarrow> Inl AttributeError
      | Some h \<Rightarrow> (let hash_md5 = md5_hexdigest h in int_hex (take 8 hash_md5)))"

definition id_obtener :: "string option \<Rightarrow> py_error + int" where
  "id_obtener doc_id =
     (case doc_id of
        None \<Rightarrow> Inl AttributeError
      | Some h \<Rightarrow> (let hash_md5 = md5_hexdigest h in int_hex (take 8 hash_md5)))"

definition id_actualizar :: "string option \<Rightarrow> py_error + int" where
  "id_actualizar doc_id =
     (case doc_id of
        None \<Rightarrow> Inl AttributeError
      | Some h \<Rightarrow> (let hash_md5 = md5_hexdigest h in int_hex (take 8 hash_md5)))"

definition id_eliminar :: "string option \<Rightarrow> py_error + int" where
  "id_eliminar doc_id =
     (case doc_id of
        None \<Rightarrow> Inl AttributeError
      | Some h \<Rightarrow> int_hex (md5_hexdigest h))"

section \<open>The two stores and what surrounds them\<close>

text \<open>
  The primary store is the list of its documents, each a dict. The vector store maps a
  numeric id to a point: a vector and a payload. \<open>registro\<close> keeps the external calls
  that were attempted and the warnings and per-record errors that were logged, oldest
  first. \<open>consultas\<close> counts the calls of the cancellation callback made so far.
\<close>

type_synonym documento_mongo = "(string \<times> pyval) list"

record punto =
  p_vector :: "real list"
  p_payload :: "(string \<times> pyval) list"

datatype operacion =
    OpEmbed string
  | OpActualizarEmbedding pyval
  | OpMarcarQdrant pyval
  | OpFindOne string
  | OpInsertOne
  | OpRetrieve int
  | OpUpsert int
  | OpDelete int

datatype evento =
    Llamada operacion
  | AvisoQdrant py_error
  | AvisoMarcar pyval py_error
  | ErrorProcesando string py_error

record mundo =
  coleccion :: "documento_mongo list"
  puntos :: "int \<rightharpoonup> punto"
  registro :: "evento list"
  consultas :: nat

text \<open>
  What the code cannot decide is a parameter: which external calls fail and with what
  (\<open>falla\<close>), the vector the embedding model answers, the \<^verbatim>\<open>ObjectId\<close> the driver
  makes for a document inserted without one, the interpreter's text of a float, and the
  text \<^verbatim>\<open>_crear_texto_desde_campos\<close> builds from the fields of a record, which no
  property below looks into.
\<close>

record entorno =
  falla :: "operacion \<Rightarrow> py_error option"
  embed_query :: "string \<Rightarrow> real list"
  crear_texto_desde_campos :: "imagen_documento \<Rightarrow> string"
  nuevo_object_id :: "documento_mongo list \<Rightarrow> string"
  repr_float :: "real \<Rightarrow> string"

definition anotar :: "evento \<Rightarrow> mundo \<Rightarrow> mundo" where
  "anotar ev w = w\<lparr>registro := registro w @ [ev]\<rparr>"

fun py_opt :: "string option \<Rightarrow> pyval" where
  "py_opt None = PNone"
| "py_opt (Some s) = PStr s"

subsection \<open>The driver of the primary store\<close>

text \<open>
  A filter \<^verbatim>\<open>{campo: valor}\<close> matches a document whose field equals the value or
  is a list holding it; \<^verbatim>\<open>None\<close> also matches a document without the field.
  \<^verbatim>\<open>update_one\<close> changes the first match and does nothing when there is none.
\<close>

definition coincide :: "string \<Rightarrow> pyval \<Rightarrow> documento_mongo \<Rightarrow> bool" where
  "coincide campo valor d =
     (case map_of d campo of
        None \<Rightarrow> valor = PNone
      | Some x \<Rightarrow> x = valor \<or> (case x of PList xs \<Rightarrow> valor \<in> set xs | _ \<Rightarrow> False))"


fun update_one ::
  "string \<Rightarrow> pyval \<Rightarrow> (string \<times> pyval) list \<Rightarrow> documento_mongo list \<Rightarrow> documento_mongo list" where
  "update_one campo valor cambios [] = []"
| "update_one campo valor cambios (d # ds) =
     (if coincide campo valor d
      then foldl (\<lambda>d' kv. dict_set (fst kv) (snd kv) d') d cambios # ds
      else d # update_one campo valor cambios ds)"

section \<open>qdrant_manager.py: the operations on points\<close>

text \<open>
  The payload \<^verbatim>\<open>insertar_vector\<close> builds, key by key as the source lists them.
\<close>

definition payload_completo ::
  "imagen_documento \<Rightarrow> real list \<Rightarrow> string \<Rightarrow> (string \<times> pyval) list" where
  "payload_completo doc emb descripcion =
     [(''id'', py_opt (id_doc doc)),
      (''id_hash'', py_opt (id_hash doc)),
      (''hash_sha512'', PStr (hash_sha512 doc)),
      (''nombre'', PStr (nombre doc)),
      (''ruta'', PStr (ruta doc)),
      (''ruta_alternativa'', py_opt (ruta_alternativa doc)),
      (''ancho'', PInt (ancho doc)),
      (''alto'', PInt (alto doc)),
      (''peso'', PFloat (peso doc)),
      (''fecha_creacion'', PStr (get_fecha_creacion doc)),
      (''fecha_creacion_dia'', PStr (fecha_creacion_dia doc)),
      (''fecha_creacion_mes'', PStr (fecha_creacion_mes doc)),
      (''fecha_creacion_anio'', PStr (fecha_creacion_anio doc)),
      (''fecha_creacion_hora'', PStr (fecha_creacion_hora doc)),
      (''fecha_creacion_minuto'', PStr (fecha_creacion_minuto doc)),
      (''fecha_procesamiento'', PStr (get_fecha_procesamiento doc)),
      (''fecha_procesamiento_dia'', PStr (fecha_procesamiento_dia doc)),
      (''fecha_procesamiento_mes'', PStr (fecha_procesamiento_mes doc)),
      (''fecha_procesamiento_anio'', PStr (fecha_procesamiento_anio doc)),
      (''fecha_procesamiento_hora'', PStr (fecha_procesamiento_hora doc)),
      (''fecha_procesamiento_minuto'', PStr (fecha_procesamiento_minuto doc)),
      (''coordenadas'', coordenadas doc),
      (''barrio'', PStr (barrio doc)),
      (''calle'', PStr (calle doc)),
      (''ciudad'', PStr (ciudad doc)),
      (''cp'', PStr (cp doc)),
      (''pais'', PStr (pais doc)),
      (''objeto_procesado'', PBool (objeto_procesado doc)),
      (''objetos'', PList (map PStr (objetos doc))),
      (''personas'', PList (map PStr (personas doc))),
      (''descripcion_semantica'', PStr descripcion),
      (''embedding'', PList (map PFloat emb))]"

text \<open>
  \<^verbatim>\<open>client.upsert\<close> stores the point under its id and replaces whatever point was
  there, vector and payload. Every operation computes its id first; the call to the
  store is then logged and may fail. Each operation's own \<^verbatim>\<open>except\<close> logs and
  raises again, so the exception reaches the caller as it is.
\<close>

definition upsert :: "entorno \<Rightarrow> int \<Rightarrow> punto \<Rightarrow> mundo \<Rightarrow> (py_error + unit) \<times> mundo" where
  "upsert env id_numerico p w =
     (let w1 = anotar (Llamada (OpUpsert id_numerico)) w in
      case falla env (OpUpsert id_numerico) of
        Some e \<Rightarrow> (Inl e, w1)
      | None \<Rightarrow> (Inr (), w1\<lparr>puntos := (puntos w1)(id_numerico \<mapsto> p)\<rparr>))"

definition insertar_vector ::
  "entorno \<Rightarrow> imagen_documento \<Rightarrow> real list \<Rightarrow> string \<Rightarrow> mundo \<Rightarrow> (py_error + string) \<times> mundo" where
  "insertar_vector env doc emb descripcion w =
     (case id_insertar (id_hash doc) of
        Inl e \<Rightarrow> (Inl e, w)
      | Inr id_numerico \<Rightarrow>
          (case upsert env id_numerico
                  \<lparr> p_vector = emb, p_payload = payload_completo doc emb descripcion \<rparr> w of
             (Inl e, w1) \<Rightarrow> (Inl e, w1)
           | (Inr u, w1) \<Rightarrow> (Inr (str_int id_numerico), w1)))"

definition obtener_por_id ::
  "entorno \<Rightarrow> string option \<Rightarrow> mundo
     \<Rightarrow> (py_error + (int \<times> (string \<times> pyval) list) option) \<times> mundo" where
  "obtener_por_id env doc_id w =
     (case id_obtener doc_id of
        Inl e \<Rightarrow> (Inl e, w)
      | Inr id_numerico \<Rightarrow>
          (let w1 = anotar (Llamada (OpRetrieve id_numerico)) w in
           case falla env (OpRetrieve id_numerico) of
             Some e \<Rightarrow> (Inl e, w1)
           | None \<Rightarrow>
               (case puntos w1 id_numerico of
                  None \<Rightarrow> (Inr None, w1)
                | Some p \<Rightarrow> (Inr (Some (id_numerico, p_payload p)), w1))))"

definition actualizar_vector ::
  "entorno \<Rightarrow> string option \<Rightarrow> real list \<Rightarrow> string \<Rightarrow> mundo \<Rightarrow> (py_error + unit) \<times> mundo" where
  "actualizar_vector env doc_id emb descripcion w =
     (case id_actualizar doc_id of
        Inl e \<Rightarrow> (Inl e, w)
      | Inr id_numerico \<Rightarrow>
          upsert env id_numerico
            \<lparr> p_vector = emb, p_payload = [(''descripcion_semantica'', PStr descripcion)] \<rparr> w)"

definition eliminar_vector ::
  "entorno \<Rightarrow> string option \<Rightarrow> mundo \<Rightarrow> (py_error + unit) \<times> mundo" where
  "eliminar_vector env doc_id w =
     (case id_eliminar doc_id of
        Inl e \<Rightarrow> (Inl e, w)
      | Inr id_numerico \<Rightarrow>
          (let w1 = anotar (Llamada (OpDelete id_numerico)) w in
           case falla env (OpDelete id_numerico) of
             Some e \<Rightarrow> (Inl e, w1)
           | None \<Rightarrow> (Inr (), w1\<lparr>puntos := (puntos w1)(id_numerico := None)\<rparr>)))"

section \<open>database.py: writes to the primary store\<close>

text \<open>
  \<^verbatim>\<open>
  def actualizar_embedding(self, doc_id, embedding, descripcion):
      self.collection.update_one({"_id": doc_id},
          {"$set": {"embedding": embedding, "descripcion_semantica": descripcion}})
  \<close>
\<close>

definition actualizar_embedding ::
  "entorno \<Rightarrow> string option \<Rightarrow> real list \<Rightarrow> string \<Rightarrow> mundo \<Rightarrow> (py_error + unit) \<times> mundo" where
  "actualizar_embedding env doc_id emb descripcion w =
     (let w1 = anotar (Llamada (OpActualizarEmbedding (py_opt doc_id))) w in
      case falla env (OpActualizarEmbedding (py_opt doc_id)) of
        Some e \<Rightarrow> (Inl e, w1)
      | None \<Rightarrow>
          (Inr (), w1\<lparr>coleccion :=
             update_one ''_id'' (py_opt doc_id)
               [(''embedding'', PList (map PFloat emb)),
                (''descripcion_semantica'', PStr descripcion)]
               (coleccion w1)\<rparr>))"






section \<open>busqueda_semantica.py: procesar_documento\<close>

text \<open>
  The cancellation callback takes no argument and answers from a state of its own: it is
  the sequence of its answers, the \<open>n\<close>-th call answering \<open>f n\<close>.
  \<^verbatim>\<open>if cancel_callback and cancel_callback():\<close> calls it only when there is one.
\<close>

definition consultar_cancel :: "(nat \<Rightarrow> bool) option \<Rightarrow> mundo \<Rightarrow> bool \<times> mundo" where
  "consultar_cancel cancel_callback w =
     (case cancel_callback of
        None \<Rightarrow> (False, w)
      | Some f \<Rightarrow> (f (consultas w), w\<lparr>consultas := Suc (consultas w)\<rparr>))"

text \<open>
  The \<^verbatim>\<open>try\<close> around the vector store: look the point up, update it when it is
  there and insert it otherwise; whatever is raised inside is logged as a warning and
  the record goes on.
\<close>

definition guardar_en_qdrant ::
  "entorno \<Rightarrow> imagen_documento \<Rightarrow> real list \<Rightarrow> string \<Rightarrow> mundo \<Rightarrow> mundo" where
  "guardar_en_qdrant env doc emb texto w =
     (case obtener_por_id env (id_hash doc) w of
        (Inl qdrant_error, w1) \<Rightarrow> anotar (AvisoQdrant qdrant_error) w1
      | (Inr (Some doc_qdrant), w1) \<Rightarrow>
          (case actualizar_vector env (id_hash doc) emb texto w1 of
             (Inl qdrant_error, w2) \<Rightarrow> anotar (AvisoQdrant qdrant_error) w2
           | (Inr u, w2) \<Rightarrow> w2)
      | (Inr None, w1) \<Rightarrow>
          (case insertar_vector env doc emb texto w1 of
             (Inl qdrant_error, w2) \<Rightarrow> anotar (AvisoQdrant qdrant_error) w2
           | (Inr u, w2) \<Rightarrow> w2))"

text \<open>Assigning to a field of the model also records the field as set.\<close>

definition asignar_campos :: "string list \<Rightarrow> string list \<Rightarrow> string list" where
  "asignar_campos nombres fs = fs @ filter (\<lambda>n. n \<notin> set fs) nombres"

definition cancelado_por_usuario :: py_error where
  "cancelado_por_usuario = Exception ''Procesamiento cancelado por el usuario''"

definition procesar_documento ::
  "entorno \<Rightarrow> (nat \<Rightarrow> bool) option \<Rightarrow> imagen_documento \<Rightarrow> mundo
     \<Rightarrow> (py_error + imagen_documento) \<times> mundo" where
  "procesar_documento env cancel_callback doc w =
     (let texto_para_embedding = crear_texto_desde_campos env doc in
      case consultar_cancel cancel_callback w of
        (True, w1) \<Rightarrow> (Inl cancelado_por_usuario, w1)
      | (False, w1) \<Rightarrow>
     (let w2 = anotar (Llamada (OpEmbed texto_para_embedding)) w1 in
      case falla env (OpEmbed texto_para_embedding) of
        Some e \<Rightarrow> (Inl e, w2)
      | None \<Rightarrow>
     (let emb = embed_query env texto_para_embedding in
      case consultar_cancel cancel_callback w2 of
        (True, w3) \<Rightarrow> (Inl cancelado_por_usuario, w3)
      | (False, w3) \<Rightarrow>
     (case actualizar_embedding env (id_hash doc) emb texto_para_embedding w3 of
        (Inl e, w4) \<Rightarrow> (Inl e, w4)
      | (Inr u, w4) \<Rightarrow>
     (case consultar_cancel cancel_callback w4 of
        (True, w5) \<Rightarrow> (Inl cancelado_por_usuario, w5)
      | (False, w5) \<Rightarrow>
          (Inr (doc\<lparr> descripcion_semantica := Some texto_para_embedding,
                     embedding := Some emb,
                     model_fields_set :=
                       asignar_campos [''descripcion_semantica'', ''embedding'']
                         (model_fields_set doc) \<rparr>),
           guardar_en_qdrant env doc emb texto_para_embedding w5))))))"

section \<open>batch_processor.py: procesar_coleccion_completa\<close>

record contadores =
  documentos_procesados :: nat
  documentos_exitosos :: nat
  documentos_errores :: nat

datatype mensaje =
    NoHayDocumentos
  | ProcesamientoCancelado nat nat
  | ProcesamientoCompletado nat nat

record resultado_lote =
  total_procesados :: nat
  total_exitosos :: nat
  total_errores :: nat
  cancelado :: "bool option"
  mensaje :: mensaje

text \<open>
  The body of the inner loop after its cancellation check: process the record, count it,
  and on success mark it in the primary store (a failure of the mark is a warning).
  A model instance is always true, so the mark is always attempted.
\<close>

definition marcar_qdrant :: "entorno \<Rightarrow> imagen_documento \<Rightarrow> mundo \<Rightarrow> mundo" where
  "marcar_qdrant env doc w =
     (let w1 = anotar (Llamada (OpMarcarQdrant (py_opt (id_doc doc)))) w in
      case falla env (OpMarcarQdrant (py_opt (id_doc doc))) of
        Some e \<Rightarrow> anotar (AvisoMarcar (py_opt (id_doc doc)) e) w1
      | None \<Rightarrow>
          w1\<lparr>coleccion :=
               update_one ''_id'' (py_opt (id_doc doc)) [(''qdrant'', PBool True)] (coleccion w1)\<rparr>)"

definition procesar_uno ::
  "entorno \<Rightarrow> (nat \<Rightarrow> bool) option \<Rightarrow> imagen_documento \<Rightarrow> contadores \<times> mundo
     \<Rightarrow> contadores \<times> mundo" where
  "procesar_uno env cancel_callback doc s =
     (case s of (c, w) \<Rightarrow>
        (case procesar_documento env cancel_callback doc w of
           (Inr documento_procesado, w1) \<Rightarrow>
             (c\<lparr>documentos_exitosos := documentos_exitosos c + 1\<rparr>, marcar_qdrant env doc w1)
         | (Inl e, w1) \<Rightarrow>
             (c\<lparr>documentos_errores := documentos_errores c + 1\<rparr>,
              anotar (ErrorProcesando (nombre doc) e) w1)))"

text \<open>The inner loop over one batch. The flag says whether it left by cancellation.\<close>

fun bucle_documentos ::
  "entorno \<Rightarrow> (nat \<Rightarrow> bool) option \<Rightarrow> imagen_documento list \<Rightarrow> contadores \<times> mundo
     \<Rightarrow> bool \<times> contadores \<times> mundo" where
  "bucle_documentos env cancel_callback [] s = (False, s)"
| "bucle_documentos env cancel_callback (doc # batch) s =
     (case s of (c, w) \<Rightarrow>
        (case consultar_cancel cancel_callback w of
           (True, w1) \<Rightarrow> (True, c, w1)
         | (False, w1) \<Rightarrow>
             bucle_documentos env cancel_callback batch
               (procesar_uno env cancel_callback doc (c, w1))))"

text \<open>
  The outer loop \<^verbatim>\<open>for i in range(0, total_documentos, batch_size)\<close> for a positive
  step; \<^verbatim>\<open>time.sleep\<close> between batches changes nothing here.
\<close>

function bucle_lotes ::
  "entorno \<Rightarrow> (nat \<Rightarrow> bool) option \<Rightarrow> nat \<Rightarrow> imagen_documento list \<Rightarrow> nat
     \<Rightarrow> contadores \<times> mundo \<Rightarrow> bool \<times> contadores \<times> mundo" where
  "bucle_lotes env cancel_callback batch_size docs i s =
     (if batch_size = 0 \<or> length docs \<le> i then (False, s)
      else
        (case s of (c, w) \<Rightarrow>
          (case consultar_cancel cancel_callback w of
             (True, w1) \<Rightarrow> (True, c, w1)
           | (False, w1) \<Rightarrow>
               (let batch = take batch_size (drop i docs) in
                case bucle_documentos env cancel_callback batch (c, w1) of
                  (True, s2) \<Rightarrow> (True, s2)
                | (False, c2, w2) \<Rightarrow>
                    bucle_lotes env cancel_callback batch_size docs (i + batch_size)
                      (c2\<lparr>documentos_procesados := documentos_procesados c2 + length batch\<rparr>,
                       w2)))))"
  by pat_completeness auto
termination
  by (relation "measure (\<lambda>(env, cb, b, docs, i, s). length docs - i)") auto

text \<open>
  \<^verbatim>\<open>procesar_coleccion_completa\<close>. The candidates are what
  \<^verbatim>\<open>_obtener_documentos_sin_embedding\<close> returned, or the exception it raised. A step
  of zero makes \<^verbatim>\<open>range\<close> raise, a negative one makes it empty.
\<close>

definition nunca :: "nat \<Rightarrow> bool" where
  "nunca n = False"

definition procesar_coleccion_completa ::
  "entorno \<Rightarrow> int \<Rightarrow> (nat \<Rightarrow> bool) option \<Rightarrow> py_error + imagen_documento list \<Rightarrow> mundo
     \<Rightarrow> (py_error + resultado_lote) \<times> mundo" where
  "procesar_coleccion_completa env batch_size cancel_callback candidatos w =
     (let cb = (case cancel_callback of None \<Rightarrow> Some nunca | Some f \<Rightarrow> Some f) in
      case candidatos of
        Inl e \<Rightarrow> (Inl e, w)
      | Inr documentos_sin_procesar \<Rightarrow>
          if length documentos_sin_procesar = 0 then
            (Inr \<lparr> total_procesados = 0, total_exitosos = 0, total_errores = 0,
                   cancelado = None, mensaje = NoHayDocumentos \<rparr>, w)
          else if batch_size = 0 then (Inl ValueError, w)
          else
            (case bucle_lotes env cb (if batch_size < 0 then 0 else nat batch_size)
                    documentos_sin_procesar 0
                    (\<lparr> documentos_procesados = 0, documentos_exitosos = 0,
                       documentos_errores = 0 \<rparr>, w) of
               (True, c, w1) \<Rightarrow>
                 (Inr \<lparr> total_procesados = documentos_procesados c,
                        total_exitosos = documentos_exitosos c,
                        total_errores = documentos_errores c,
                        cancelado = Some True,
                        mensaje = ProcesamientoCancelado (documentos_exitosos c)
                                    (documentos_errores c) \<rparr>, w1)
             | (False, c, w1) \<Rightarrow>
                 (Inr \<lparr> total_procesados = documentos_procesados c,
                        total_exitosos = documentos_exitosos c,
                        total_errores = documentos_errores c,
                        cancelado = None,
                        mensaje = ProcesamientoCompletado (documentos_exitosos c)
                                    (documentos_errores c) \<rparr>, w1)))"

section \<open>A sample environment\<close>

text \<open>
  An environment in which no external call fails, and a world with empty stores. The
  sample record has the key \<open>abc\<close>, whose MD5 digest is
  \<open>900150983cd24fb0d6963f7d28e17f72\<close>.
\<close>

definition sin_fallos :: "operacion \<Rightarrow> py_error option" where
  "sin_fallos op = None"

definition vector_ejemplo :: "string \<Rightarrow> real list" where
  "vector_ejemplo texto = [0.5, 0.25]"

definition texto_ejemplo :: "imagen_documento \<Rightarrow> string" where
  "texto_ejemplo doc = ''archivo: '' @ nombre doc"

definition oid_ejemplo :: "documento_mongo list \<Rightarrow> string" where
  "oid_ejemplo ds = ''65f0c0ffee'' @ str_int (int (length ds))"

definition entorno_ejemplo :: entorno where
  "entorno_ejemplo =
     \<lparr> falla = sin_fallos, embed_query = vector_ejemplo,
       crear_texto_desde_campos = texto_ejemplo, nuevo_object_id = oid_ejemplo,
       repr_float = sin_formato \<rparr>"

definition mundo_vacio :: mundo where
  "mundo_vacio = \<lparr> coleccion = [], puntos = Map.empty, registro = [], consultas = 0 \<rparr>"

text \<open>The vector store refuses every write of the point of the sample record.\<close>

definition falla_upsert :: "operacion \<Rightarrow> py_error option" where
  "falla_upsert op = (if op = OpUpsert 2416005272 then Some (Exception ''timeout'') else None)"

text \<open>The sample record as the primary store holds it, and a world holding only it.\<close>

definition documento_mongo_ejemplo :: documento_mongo where
  "documento_mongo_ejemplo =
     [(''_id'', PStr ''abc''), (''id_hash'', PStr ''abc''), (''nombre'', PStr ''playa.jpg''),
      (''ruta'', PStr ''/fotos/playa.jpg'')]"

definition mundo_ejemplo :: mundo where
  "mundo_ejemplo =
     \<lparr> coleccion = [documento_mongo_ejemplo], puntos = Map.empty, registro = [],
       consultas = 0 \<rparr>"

text \<open>The upserts attempted, among the events of a log.\<close>

fun es_upsert :: "evento \<Rightarrow> bool" where
  "es_upsert (Llamada (OpUpsert n)) = True"
| "es_upsert _ = False"

section \<open>Coordinates after validation\<close>



section \<open>The regex fallback score\<close>









section \<open>Fusion of the two result lists\<close>

lemma map_of_dict_set: "map_of (dict_set k v d) = (map_of d)(k \<mapsto> v)"
  by (induction d) (auto simp: fun_eq_iff)

lemma fst_dict_set:
  "map fst (dict_set k v d) = (if k \<in> set (map fst d) then map fst d else map fst d @ [k])"
  by (induction d) auto

lemma combinar_Cons: "combinar (r # rs) d = combinar rs (paso_combinar r d)"
  unfolding paso_combinar_def clave_def by (simp add: Let_def)

lemma clave_presente: "map_of d k = Some v \<Longrightarrow> k \<in> set (map fst d)"
  by (metis map_of_eq_None_iff option.distinct(1) set_map)

lemma claves_dict_set: "fst ` set (dict_set k v d) = insert k (fst ` set d)"
  by (induction d) auto

lemma claves_paso: "fst ` set (paso_combinar r d) = insert (clave r) (fst ` set d)"
proof (cases "map_of d (clave r)")
  case None
  then show ?thesis
    by (simp add: paso_combinar_def claves_dict_set)
next
  case (Some previo)
  then have "clave r \<in> fst ` set d"
    using clave_presente [of d "clave r" previo] by simp
  with Some show ?thesis
    by (simp add: paso_combinar_def claves_dict_set insert_absorb)
qed

lemma distinct_paso: "distinct (map fst d) \<Longrightarrow> distinct (map fst (paso_combinar r d))"
  by (simp add: paso_combinar_def fst_dict_set split: option.split)

lemma distinct_combinar:
  "distinct (map fst d) \<Longrightarrow> distinct (map fst (combinar rs d))"
proof (induction rs arbitrary: d)
  case Nil
  then show ?case by simp
next
  case (Cons r rs)
  then show ?case by (simp only: combinar_Cons distinct_paso)
qed

lemma claves_combinar:
  "fst ` set (combinar rs d) = fst ` set d \<union> clave ` set rs"
proof (induction rs arbitrary: d)
  case Nil
  then show ?case by simp
next
  case (Cons r rs)
  have "fst ` set (combinar (r # rs) d) = fst ` set (paso_combinar r d) \<union> clave ` set rs"
    by (simp only: combinar_Cons Cons.IH)
  then show ?case by (simp only: claves_paso) auto
qed

lemma map_of_paso:
  "map_of (paso_combinar r d) =
     (case map_of d (clave r) of
        None \<Rightarrow> (map_of d)(clave r \<mapsto> r)
      | Some previo \<Rightarrow>
          if similitud r > similitud previo then (map_of d)(clave r \<mapsto> r) else map_of d)"
  by (simp add: paso_combinar_def map_of_dict_set split: option.split)

lemma bien_formado_actualiza:
  assumes bf: "bien_formado d V"
    and m: "map_of d' = (map_of d)(clave r \<mapsto> r)"
    and mayor: "\<And>x. x \<in> V \<Longrightarrow> clave x = clave r \<Longrightarrow> similitud x \<le> similitud r"
  shows "bien_formado d' (insert r V)"
  unfolding bien_formado_def
proof (intro conjI allI impI ballI)
  fix k r'
  assume k: "map_of d' k = Some r'"
  show "r' \<in> insert r V"
  proof (cases "k = clave r")
    case True
    with k m show ?thesis by simp
  next
    case False
    with k m have "map_of d k = Some r'" by simp
    with bf show ?thesis by (simp add: bien_formado_def)
  qed
next
  fix k r'
  assume k: "map_of d' k = Some r'"
  show "clave r' = k"
  proof (cases "k = clave r")
    case True
    with k m show ?thesis by simp
  next
    case False
    with k m have "map_of d k = Some r'" by simp
    with bf show ?thesis by (simp add: bien_formado_def)
  qed
next
  fix k r' x
  assume k: "map_of d' k = Some r'" and x: "x \<in> insert r V" and kx: "clave x = k"
  show "similitud x \<le> similitud r'"
  proof (cases "k = clave r")
    case True
    with k m have "r' = r" by simp
    with True x kx mayor show ?thesis by auto
  next
    case False
    with k m have d: "map_of d k = Some r'" by simp
    from False kx x have "x \<in> V" by auto
    with bf d kx show ?thesis unfolding bien_formado_def by blast
  qed
next
  fix x
  assume x: "x \<in> insert r V"
  show "map_of d' (clave x) \<noteq> None"
  proof (cases "clave x = clave r")
    case True
    with m show ?thesis by simp
  next
    case False
    with x have "x \<in> V" by auto
    with bf have "map_of d (clave x) \<noteq> None" unfolding bien_formado_def by blast
    with False m show ?thesis by simp
  qed
qed

lemma bien_formado_conserva:
  assumes bf: "bien_formado d V"
    and previo: "map_of d (clave r) = Some previo"
    and menor: "similitud r \<le> similitud previo"
  shows "bien_formado d (insert r V)"
  unfolding bien_formado_def
proof (intro conjI allI impI ballI)
  fix k r'
  assume "map_of d k = Some r'"
  with bf show "r' \<in> insert r V" by (simp add: bien_formado_def)
next
  fix k r'
  assume "map_of d k = Some r'"
  with bf show "clave r' = k" by (simp add: bien_formado_def)
next
  fix k r' x
  assume k: "map_of d k = Some r'" and x: "x \<in> insert r V" and kx: "clave x = k"
  show "similitud x \<le> similitud r'"
  proof (cases "x = r")
    case True
    with k kx previo have "r' = previo" by simp
    with True menor show ?thesis by simp
  next
    case False
    with x have "x \<in> V" by simp
    with bf k kx show ?thesis unfolding bien_formado_def by blast
  qed
next
  fix x
  assume x: "x \<in> insert r V"
  show "map_of d (clave x) \<noteq> None"
  proof (cases "x = r")
    case True
    with previo show ?thesis by simp
  next
    case False
    with x have "x \<in> V" by simp
    with bf show ?thesis unfolding bien_formado_def by blast
  qed
qed

lemma bien_formado_paso:
  assumes bf: "bien_formado d V"
  shows "bien_formado (paso_combinar r d) (insert r V)"
proof (cases "map_of d (clave r)")
  case None
  have m: "map_of (paso_combinar r d) = (map_of d)(clave r \<mapsto> r)"
    by (simp add: map_of_paso None)
  have "False" if "x \<in> V" "clave x = clave r" for x
    using bf that None unfolding bien_formado_def by metis
  then show ?thesis
    using bf m by (intro bien_formado_actualiza [where d = d]) auto
next
  case (Some previo)
  have previo: "similitud x \<le> similitud previo" if "x \<in> V" "clave x = clave r" for x
    using bf Some that unfolding bien_formado_def by blast
  show ?thesis
  proof (cases "similitud r > similitud previo")
    case True
    have m: "map_of (paso_combinar r d) = (map_of d)(clave r \<mapsto> r)"
      by (simp add: map_of_paso Some True)
    have "similitud x \<le> similitud r" if "x \<in> V" "clave x = clave r" for x
      using previo [OF that] True by simp
    then show ?thesis
      using bf m by (intro bien_formado_actualiza [where d = d]) auto
  next
    case False
    then have "paso_combinar r d = d"
      by (simp add: paso_combinar_def Some)
    moreover have "bien_formado d (insert r V)"
      using bf Some False by (intro bien_formado_conserva [where previo = previo]) auto
    ultimately show ?thesis by simp
  qed
qed

lemma bien_formado_combinar:
  "bien_formado d vistos \<Longrightarrow> bien_formado (combinar rs d) (vistos \<union> set rs)"
proof (induction rs arbitrary: d vistos)
  case Nil
  then show ?case by simp
next
  case (Cons r rs)
  have "bien_formado (combinar rs (paso_combinar r d)) (insert r vistos \<union> set rs)"
    using Cons.prems by (intro Cons.IH bien_formado_paso)
  then show ?case by (simp only: combinar_Cons) simp
qed

lemma bien_formado_vacio: "bien_formado [] {}"
  by (simp add: bien_formado_def)


lemma entradas_combinar:
  assumes "(k, r) \<in> set (combinar rs [])"
  shows "r \<in> set rs \<and> clave r = k \<and> (\<forall>x \<in> set rs. clave x = k \<longrightarrow> similitud x \<le> similitud r)"
proof -
  have "distinct (map fst (combinar rs []))"
    by (rule distinct_combinar) simp
  with assms have "map_of (combinar rs []) k = Some r" by simp
  moreover have "bien_formado (combinar rs []) ({} \<union> set rs)"
    using bien_formado_vacio by (rule bien_formado_combinar)
  ultimately show ?thesis unfolding bien_formado_def by simp
qed

lemma claves_valores_combinar:
  "map clave (map snd (combinar rs [])) = map fst (combinar rs [])"
proof -
  have "clave (snd kr) = fst kr" if "kr \<in> set (combinar rs [])" for kr
    using entradas_combinar [of "fst kr" "snd kr" rs] that by simp
  then show ?thesis by simp
qed

lemma set_ordenar_desc: "set (ordenar_desc rs) = set rs"
  by (simp add: ordenar_desc_def)

lemma distinct_claves_ordenar_desc:
  "distinct (map clave rs) \<Longrightarrow> distinct (map clave (ordenar_desc rs))"
  by (simp add: distinct_map ordenar_desc_def)

lemma ordenar_desc_ordenado:
  "sorted_wrt (\<lambda>a b. similitud b \<le> similitud a) (ordenar_desc rs)"
proof -
  have "sorted (map (\<lambda>r. - similitud r) (ordenar_desc rs))"
    by (simp add: ordenar_desc_def)
  then show ?thesis by (simp add: sorted_map)
qed

lemma py_hasta_take: "\<exists>n. py_hasta limite xs = take n xs"
  by (auto simp: py_hasta_def)

lemma length_py_hasta:
  "length (py_hasta limite xs) =
     (if limite < 0 then length xs - nat (- limite) else min (nat limite) (length xs))"
  by (auto simp: py_hasta_def)

lemma py_hasta_todo: "int (length xs) \<le> limite \<Longrightarrow> py_hasta limite xs = xs"
  by (simp add: py_hasta_def)

text \<open>
  C3. When both searches return, the hybrid search returns a list in which every key
  (id_hash) occurs at most once; each entry is one of the given results and no given
  result of the same key has a higher score; the list is in descending order of score;
  its length is the number of distinct keys cut to the limit; when the limit is not
  below the number of distinct keys, every key of either list is in it; and whatever the
  cut leaves out scores no higher than what it keeps.
\<close>

theorem buscar_hibrida_fusion:
  "\<exists>res. buscar_hibrida (Inr t) (Inr s) limite = Inr res
     \<and> distinct (map clave res)
     \<and> (\<forall>r \<in> set res. r \<in> set (t @ s)
           \<and> (\<forall>x \<in> set (t @ s). clave x = clave r \<longrightarrow> similitud x \<le> similitud r))
     \<and> sorted_wrt (\<lambda>a b. similitud b \<le> similitud a) res
     \<and> length res =
          (if limite < 0 then card (clave ` set (t @ s)) - nat (- limite)
           else min (nat limite) (card (clave ` set (t @ s))))
     \<and> (int (card (clave ` set (t @ s))) \<le> limite \<longrightarrow> clave ` set res = clave ` set (t @ s))
     \<and> (\<forall>r \<in> set res. \<forall>x \<in> set (t @ s).
           clave x \<notin> clave ` set res \<longrightarrow> similitud x \<le> similitud r)"
proof -
  let ?D = "combinar (t @ s) []"
  let ?L = "map snd ?D"
  let ?S = "ordenar_desc ?L"
  let ?res = "py_hasta limite ?S"
  obtain n where n: "?res = take n ?S"
    using py_hasta_take by blast
  have dD: "distinct (map fst ?D)"
    by (rule distinct_combinar) simp
  have claves: "map clave ?L = map fst ?D"
    by (rule claves_valores_combinar)
  have K: "set (map clave ?L) = clave ` set (t @ s)"
    unfolding claves using claves_combinar [of "t @ s" "[]"] by simp
  have dL: "distinct (map clave ?L)"
    unfolding claves by (rule dD)
  have dS: "distinct (map clave ?S)"
    using dL by (rule distinct_claves_ordenar_desc)
  have ordS: "sorted_wrt (\<lambda>a b. similitud b \<le> similitud a) ?S"
    by (rule ordenar_desc_ordenado)
  have lenS: "length ?S = card (clave ` set (t @ s))"
  proof -
    have "length ?S = length (map clave ?L)" by (simp add: ordenar_desc_def)
    also have "\<dots> = card (set (map clave ?L))"
      using dL by (simp only: distinct_card)
    finally show ?thesis by (simp only: K)
  qed
  have enL: "r \<in> set (t @ s) \<and> (\<forall>x \<in> set (t @ s). clave x = clave r \<longrightarrow> similitud x \<le> similitud r)"
    if "r \<in> set ?L" for r
  proof -
    from that obtain k where "(k, r) \<in> set ?D" by auto
    from entradas_combinar [OF this] show ?thesis by blast
  qed
  have 1: "buscar_hibrida (Inr t) (Inr s) limite = Inr ?res"
    by (simp add: buscar_hibrida_def)
  have 2: "distinct (map clave ?res)"
    unfolding n using dS by (simp add: take_map [symmetric])
  have sub: "set ?res \<subseteq> set ?L"
    unfolding n using set_take_subset [of n ?S] by (simp add: set_ordenar_desc)
  have 3: "\<forall>r \<in> set ?res. r \<in> set (t @ s)
           \<and> (\<forall>x \<in> set (t @ s). clave x = clave r \<longrightarrow> similitud x \<le> similitud r)"
    using sub enL by blast
  have 4: "sorted_wrt (\<lambda>a b. similitud b \<le> similitud a) ?res"
    unfolding n using ordS by (rule sorted_wrt_take)
  have 5: "length ?res =
          (if limite < 0 then card (clave ` set (t @ s)) - nat (- limite)
           else min (nat limite) (card (clave ` set (t @ s))))"
    by (simp only: length_py_hasta lenS)
  have 6: "int (card (clave ` set (t @ s))) \<le> limite \<longrightarrow> clave ` set ?res = clave ` set (t @ s)"
  proof
    assume "int (card (clave ` set (t @ s))) \<le> limite"
    then have "?res = ?S" by (intro py_hasta_todo) (simp only: lenS)
    then have "clave ` set ?res = set (map clave ?L)"
      by (simp add: set_ordenar_desc image_image)
    then show "clave ` set ?res = clave ` set (t @ s)" by (simp only: K)
  qed
  have 7: "\<forall>r \<in> set ?res. \<forall>x \<in> set (t @ s).
           clave x \<notin> clave ` set ?res \<longrightarrow> similitud x \<le> similitud r"
  proof (intro ballI impI)
    fix r x
    assume r: "r \<in> set ?res" and x: "x \<in> set (t @ s)" and fuera: "clave x \<notin> clave ` set ?res"
    from x have "clave x \<in> set (map clave ?L)" by (simp only: K) simp
    then have "clave x \<in> clave ` set ?L" by (simp only: set_map)
    then obtain r' where r': "r' \<in> set ?L" "clave r' = clave x"
      unfolding image_iff by metis
    from enL [OF r'(1)] x r'(2) have xr': "similitud x \<le> similitud r'" by simp
    from fuera have "clave x \<notin> clave ` set (take n ?S)" unfolding n .
    with r'(2) have "r' \<notin> set (take n ?S)" by (metis imageI)
    moreover from r'(1) have "r' \<in> set ?S"
      by (simp only: set_ordenar_desc)
    moreover have "set ?S = set (take n ?S) \<union> set (drop n ?S)"
      by (metis append_take_drop_id set_append)
    ultimately have "r' \<in> set (drop n ?S)" by blast
    moreover have "sorted_wrt (\<lambda>a b. similitud b \<le> similitud a) (take n ?S @ drop n ?S)"
      using ordS by simp
    moreover from r have "r \<in> set (take n ?S)" unfolding n .
    ultimately have "similitud r' \<le> similitud r"
      unfolding sorted_wrt_append by blast
    with xr' show "similitud x \<le> similitud r" by simp
  qed
  from 1 2 3 4 5 6 7 show ?thesis by blast
qed

theorem buscar_hibrida_fusion_witness:
  "buscar_hibrida (Inr [resultado_texto_ejemplo]) (Inr [resultado_semantico_ejemplo]) 10
     = Inr [resultado_semantico_ejemplo]"
proof -
  let ?t = "[resultado_texto_ejemplo]" and ?s = "[resultado_semantico_ejemplo]"
  have k: "clave resultado_texto_ejemplo = clave resultado_semantico_ejemplo"
    by (simp add: clave_def resultado_texto_ejemplo_def resultado_semantico_ejemplo_def)
  have sim: "similitud resultado_texto_ejemplo < similitud resultado_semantico_ejemplo"
    by (simp add: resultado_texto_ejemplo_def resultado_semantico_ejemplo_def)
  from buscar_hibrida_fusion [of ?t ?s 10]
  obtain res where res: "buscar_hibrida (Inr ?t) (Inr ?s) 10 = Inr res"
    and mejor: "\<forall>r \<in> set res. r \<in> set (?t @ ?s)
           \<and> (\<forall>x \<in> set (?t @ ?s). clave x = clave r \<longrightarrow> similitud x \<le> similitud r)"
    and len: "length res =
          (if (10::int) < 0 then card (clave ` set (?t @ ?s)) - nat (- 10)
           else min (nat 10) (card (clave ` set (?t @ ?s))))"
    by blast
  from len k have "length res = 1" by simp
  then obtain r where r: "res = [r]"
    by (cases res) simp_all
  with mejor have "r \<in> set (?t @ ?s)"
    and "\<forall>x \<in> set (?t @ ?s). clave x = clave r \<longrightarrow> similitud x \<le> similitud r"
    by simp_all
  with k sim have "r = resultado_semantico_ejemplo" by auto
  with r res show ?thesis by simp
qed

section \<open>Validation of a backup file\<close>

lemma campo_faltante_ninguno:
  "campo_faltante campos metadata = Inr None \<longleftrightarrow> (\<forall>c \<in> set campos. py_in c metadata = Inr True)"
  by (induction campos) (auto split: sum.splits)

lemma campo_faltante_alguno:
  "campo_faltante campos metadata = Inr (Some c) \<Longrightarrow> c \<in> set campos \<and> py_in c metadata = Inr False"
  by (induction campos) (auto split: sum.splits if_splits)

lemma validar_documentos_ninguno:
  "validar_documentos i docs = None \<longleftrightarrow>
     (\<forall>doc \<in> set docs. \<exists>d. doc = PDict d \<and> ''_id'' \<in> set (map fst d))"
  by (induction docs arbitrary: i) (auto split: pyval.splits)

lemma validar_cargado_valido:
  assumes "validar_cargado cr campos ctotal revisar a bd = Valido info"
  shows "\<exists>metadata regs n decl.
           py_getitem bd ''metadata'' = Inr metadata \<and> py_getitem bd cr = Inr regs
           \<and> campo_faltante campos metadata = Inr None
           \<and> py_len regs = Inr n \<and> py_getitem metadata ctotal = Inr decl
           \<and> \<not> py_int_ne n decl
           \<and> (revisar \<longrightarrow> validar_documentos 0 (py_iter regs) = None)
           \<and> info = \<lparr> v_tamano_archivo = getsize a, v_hash_sha256 = sha256_hexdigest a,
                       v_metadata = metadata, v_total = n \<rparr>"
  using assms unfolding validar_cargado_def
  by (auto split: sum.splits if_splits option.splits)

lemma validar_cargado_hash:
  "es_valido (validar_cargado cr campos ctotal revisar (a\<lparr>sha256_hexdigest := h\<rparr>) bd)
     = es_valido (validar_cargado cr campos ctotal revisar a bd)"
  unfolding validar_cargado_def
  by (auto split: sum.splits if_splits option.splits)


lemma validar_archivo_valido:
  assumes "validar_archivo cr campos ctotal revisar f = Valido info"
  shows "\<exists>a bd metadata regs n decl.
           f = Some a \<and> json_load a = Cargado bd
           \<and> py_getitem bd ''metadata'' = Inr metadata \<and> py_getitem bd cr = Inr regs
           \<and> (\<forall>c \<in> set campos. py_in c metadata = Inr True)
           \<and> py_len regs = Inr n \<and> py_getitem metadata ctotal = Inr decl
           \<and> \<not> py_int_ne n decl
           \<and> (revisar \<longrightarrow> (\<forall>doc \<in> set (py_iter regs). \<exists>d. doc = PDict d \<and> ''_id'' \<in> set (map fst d)))
           \<and> v_hash_sha256 info = sha256_hexdigest a \<and> v_total info = n"
proof -
  from assms obtain a where a: "f = Some a"
    by (cases f) (simp_all add: validar_archivo_def)
  with assms obtain bd where bd: "json_load a = Cargado bd"
    and v: "validar_cargado cr campos ctotal revisar a bd = Valido info"
    by (cases "json_load a") (simp_all add: validar_archivo_def)
  from validar_cargado_valido [OF v] a bd show ?thesis
    by (simp only: campo_faltante_ninguno validar_documentos_ninguno) force
qed

lemma validar_archivo_hash:
  "es_valido (validar_archivo cr campos ctotal revisar (Some (a\<lparr>sha256_hexdigest := h\<rparr>)))
     = es_valido (validar_archivo cr campos ctotal revisar (Some a))"
  by (cases "json_load a") (simp_all add: validar_archivo_def validar_cargado_hash)

lemma clave_en_dict: "map_of d k = Some v \<Longrightarrow> k \<in> fst ` set d"
  using map_of_eq_None_iff [of d k] by simp

lemma validar_archivo_inconsistencia:
  assumes "json_load a = Cargado (PDict bd)"
    and "map_of bd ''metadata'' = Some (PDict md)"
    and "map_of bd cr = Some (PList regs)"
    and "\<forall>c \<in> set campos. c \<in> set (map fst md)"
    and "map_of md ctotal = Some decl"
    and "py_int_ne (length regs) decl"
  shows "validar_archivo cr campos ctotal revisar (Some a) = Invalido (Inconsistencia decl (length regs))"
proof -
  have "campo_faltante campos (PDict md) = Inr None"
    using assms(4) by (simp add: campo_faltante_ninguno)
  moreover have "''metadata'' \<in> fst ` set bd" "cr \<in> fst ` set bd"
    using assms(2,3) by (simp_all add: clave_en_dict)
  ultimately show ?thesis
    using assms by (simp add: validar_archivo_def validar_cargado_def)
qed

lemma validar_archivo_campo_faltante:
  assumes "json_load a = Cargado (PDict bd)"
    and "map_of bd ''metadata'' = Some (PDict md)"
    and "map_of bd cr = Some regs"
    and "c \<in> set campos" and "c \<notin> set (map fst md)"
  shows "\<exists>c'. validar_archivo cr campos ctotal revisar (Some a) = Invalido (CampoFaltante c')
              \<and> c' \<in> set campos \<and> c' \<notin> set (map fst md)"
proof -
  have "\<exists>c'. campo_faltante campos (PDict md) = Inr (Some c')"
    using assms(4,5) by (induction campos) auto
  then obtain c' where c': "campo_faltante campos (PDict md) = Inr (Some c')" ..
  from campo_faltante_alguno [OF c'] have "c' \<in> set campos \<and> c' \<notin> set (map fst md)"
    by simp
  moreover have "''metadata'' \<in> fst ` set bd" "cr \<in> fst ` set bd"
    using assms(2,3) by (simp_all add: clave_en_dict)
  then have "validar_archivo cr campos ctotal revisar (Some a) = Invalido (CampoFaltante c')"
    using assms(1-3) c' by (simp add: validar_archivo_def validar_cargado_def)
  ultimately show ?thesis by blast
qed


text \<open>
  C4 (as amended). Both validators report a file valid only when it exists, parses, has
  the metadata and the records, has every required metadata field, and declares a count
  equal to the number of its records (for MongoDB also: every record is a dict with an
  \<^verbatim>\<open>_id\<close>). A declared count that differs from the number of records is reported
  as that inconsistency, and a missing required field is reported by its name. The
  digest of the file is recomputed and returned in the result of a valid file; it is
  compared with nothing, so the verdict does not depend on it.
\<close>

theorem validar_backup_comprobaciones:
  "(validar_backup_mongodb f = Valido info \<longrightarrow>
      (\<exists>a bd metadata regs n decl.
           f = Some a \<and> json_load a = Cargado bd
           \<and> py_getitem bd ''metadata'' = Inr metadata \<and> py_getitem bd ''documents'' = Inr regs
           \<and> (\<forall>c \<in> set [''collection_name'', ''database_name'', ''backup_date'',
                          ''total_documents'']. py_in c metadata = Inr True)
           \<and> py_len regs = Inr n \<and> py_getitem metadata ''total_documents'' = Inr decl
           \<and> \<not> py_int_ne n decl
           \<and> (\<forall>doc \<in> set (py_iter regs). \<exists>d. doc = PDict d \<and> ''_id'' \<in> set (map fst d))
           \<and> v_hash_sha256 info = sha256_hexdigest a \<and> v_total info = n))
   \<and> (validar_backup_qdrant f = Valido info \<longrightarrow>
      (\<exists>a bd metadata regs n decl.
           f = Some a \<and> json_load a = Cargado bd
           \<and> py_getitem bd ''metadata'' = Inr metadata \<and> py_getitem bd ''vectors'' = Inr regs
           \<and> (\<forall>c \<in> set [''collection_name'', ''backup_date'', ''total_vectors'',
                          ''vector_size'']. py_in c metadata = Inr True)
           \<and> py_len regs = Inr n \<and> py_getitem metadata ''total_vectors'' = Inr decl
           \<and> \<not> py_int_ne n decl
           \<and> v_hash_sha256 info = sha256_hexdigest a \<and> v_total info = n))
   \<and> (json_load b = Cargado (PDict bd) \<and> map_of bd ''metadata'' = Some (PDict md)
        \<and> map_of bd ''documents'' = Some (PList regs)
        \<and> (\<forall>c \<in> set [''collection_name'', ''database_name'', ''backup_date'',
                       ''total_documents'']. c \<in> set (map fst md))
        \<and> map_of md ''total_documents'' = Some decl \<and> py_int_ne (length regs) decl
      \<longrightarrow> validar_backup_mongodb (Some b) = Invalido (Inconsistencia decl (length regs)))
   \<and> (json_load b = Cargado (PDict bd) \<and> map_of bd ''metadata'' = Some (PDict md)
        \<and> map_of bd ''vectors'' = Some (PList regs)
        \<and> (\<forall>c \<in> set [''collection_name'', ''backup_date'', ''total_vectors'',
                       ''vector_size'']. c \<in> set (map fst md))
        \<and> map_of md ''total_vectors'' = Some decl \<and> py_int_ne (length regs) decl
      \<longrightarrow> validar_backup_qdrant (Some b) = Invalido (Inconsistencia decl (length regs)))
   \<and> (json_load b = Cargado (PDict bd) \<and> map_of bd ''metadata'' = Some (PDict md)
        \<and> map_of bd ''documents'' = Some rs
        \<and> c \<in> set [''collection_name'', ''database_name'', ''backup_date'', ''total_documents'']
        \<and> c \<notin> set (map fst md)
      \<longrightarrow> (\<exists>c'. validar_backup_mongodb (Some b) = Invalido (CampoFaltante c')
                \<and> c' \<notin> set (map fst md)))
   \<and> (json_load b = Cargado (PDict bd) \<and> map_of bd ''metadata'' = Some (PDict md)
        \<and> map_of bd ''vectors'' = Some rs
        \<and> c \<in> set [''collection_name'', ''backup_date'', ''total_vectors'', ''vector_size'']
        \<and> c \<notin> set (map fst md)
      \<longrightarrow> (\<exists>c'. validar_backup_qdrant (Some b) = Invalido (CampoFaltante c')
                \<and> c' \<notin> set (map fst md)))
   \<and> es_valido (validar_backup_mongodb (Some (b\<lparr>sha256_hexdigest := h\<rparr>)))
        = es_valido (validar_backup_mongodb (Some b))
   \<and> es_valido (validar_backup_qdrant (Some (b\<lparr>sha256_hexdigest := h\<rparr>)))
        = es_valido (validar_backup_qdrant (Some b))"
proof -
  have 1: "validar_backup_mongodb f = Valido info \<longrightarrow>
      (\<exists>a bd metadata regs n decl.
           f = Some a \<and> json_load a = Cargado bd
           \<and> py_getitem bd ''metadata'' = Inr metadata \<and> py_getitem bd ''documents'' = Inr regs
           \<and> (\<forall>c \<in> set [''collection_name'', ''database_name'', ''backup_date'',
                          ''total_documents'']. py_in c metadata = Inr True)
           \<and> py_len regs = Inr n \<and> py_getitem metadata ''total_documents'' = Inr decl
           \<and> \<not> py_int_ne n decl
           \<and> (\<forall>doc \<in> set (py_iter regs). \<exists>d. doc = PDict d \<and> ''_id'' \<in> set (map fst d))
           \<and> v_hash_sha256 info = sha256_hexdigest a \<and> v_total info = n)"
  proof
    assume "validar_backup_mongodb f = Valido info"
    then have "validar_archivo ''documents''
       [''collection_name'', ''database_name'', ''backup_date'', ''total_documents'']
       ''total_documents'' True f = Valido info"
      by (simp only: validar_backup_mongodb_def)
    from validar_archivo_valido [OF this] show "\<exists>a bd metadata regs n decl.
           f = Some a \<and> json_load a = Cargado bd
           \<and> py_getitem bd ''metadata'' = Inr metadata \<and> py_getitem bd ''documents'' = Inr regs
           \<and> (\<forall>c \<in> set [''collection_name'', ''database_name'', ''backup_date'',
                          ''total_documents'']. py_in c metadata = Inr True)
           \<and> py_len regs = Inr n \<and> py_getitem metadata ''total_documents'' = Inr decl
           \<and> \<not> py_int_ne n decl
           \<and> (\<forall>doc \<in> set (py_iter regs). \<exists>d. doc = PDict d \<and> ''_id'' \<in> set (map fst d))
           \<and> v_hash_sha256 info = sha256_hexdigest a \<and> v_total info = n"
      by (simp only: simp_thms)
  qed
  have 2: "validar_backup_qdrant f = Valido info \<longrightarrow>
      (\<exists>a bd metadata regs n decl.
           f = Some a \<and> json_load a = Cargado bd
           \<and> py_getitem bd ''metadata'' = Inr metadata \<and> py_getitem bd ''vectors'' = Inr regs
           \<and> (\<forall>c \<in> set [''collection_name'', ''backup_date'', ''total_vectors'',
                          ''vector_size'']. py_in c metadata = Inr True)
           \<and> py_len regs = Inr n \<and> py_getitem metadata ''total_vectors'' = Inr decl
           \<and> \<not> py_int_ne n decl
           \<and> v_hash_sha256 info = sha256_hexdigest a \<and> v_total info = n)"
  proof
    assume "validar_backup_qdrant f = Valido info"
    then have "validar_archivo ''vectors''
       [''collection_name'', ''backup_date'', ''total_vectors'', ''vector_size'']
       ''total_vectors'' False f = Valido info"
      by (simp only: validar_backup_qdrant_def)
    from validar_archivo_valido [OF this] show "\<exists>a bd metadata regs n decl.
           f = Some a \<and> json_load a = Cargado bd
           \<and> py_getitem bd ''metadata'' = Inr metadata \<and> py_getitem bd ''vectors'' = Inr regs
           \<and> (\<forall>c \<in> set [''collection_name'', ''backup_date'', ''total_vectors'',
                          ''vector_size'']. py_in c metadata = Inr True)
           \<and> py_len regs = Inr n \<and> py_getitem metadata ''total_vectors'' = Inr decl
           \<and> \<not> py_int_ne n decl
           \<and> v_hash_sha256 info = sha256_hexdigest a \<and> v_total info = n"
      by (simp only: simp_thms)
  qed
  have 3: "json_load b = Cargado (PDict bd) \<and> map_of bd ''metadata'' = Some (PDict md)
        \<and> map_of bd ''documents'' = Some (PList regs)
        \<and> (\<forall>c \<in> set [''collection_name'', ''database_name'', ''backup_date'',
                       ''total_documents'']. c \<in> set (map fst md))
        \<and> map_of md ''total_documents'' = Some decl \<and> py_int_ne (length regs) decl
      \<longrightarrow> validar_backup_mongodb (Some b) = Invalido (Inconsistencia decl (length regs))"
    unfolding validar_backup_mongodb_def
    by (intro impI validar_archivo_inconsistencia [where bd = bd and md = md]) blast+
  have 4: "json_load b = Cargado (PDict bd) \<and> map_of bd ''metadata'' = Some (PDict md)
        \<and> map_of bd ''vectors'' = Some (PList regs)
        \<and> (\<forall>c \<in> set [''collection_name'', ''backup_date'', ''total_vectors'',
                       ''vector_size'']. c \<in> set (map fst md))
        \<and> map_of md ''total_vectors'' = Some decl \<and> py_int_ne (length regs) decl
      \<longrightarrow> validar_backup_qdrant (Some b) = Invalido (Inconsistencia decl (length regs))"
    unfolding validar_backup_qdrant_def
    by (intro impI validar_archivo_inconsistencia [where bd = bd and md = md]) blast+
  have 5: "json_load b = Cargado (PDict bd) \<and> map_of bd ''metadata'' = Some (PDict md)
        \<and> map_of bd ''documents'' = Some rs
        \<and> c \<in> set [''collection_name'', ''database_name'', ''backup_date'', ''total_documents'']
        \<and> c \<notin> set (map fst md)
      \<longrightarrow> (\<exists>c'. validar_backup_mongodb (Some b) = Invalido (CampoFaltante c')
                \<and> c' \<notin> set (map fst md))"
    unfolding validar_backup_mongodb_def
    using validar_archivo_campo_faltante [of b bd md "''documents''" rs c
        "[''collection_name'', ''database_name'', ''backup_date'', ''total_documents'']"
        "''total_documents''" True]
    by blast
  have 6: "json_load b = Cargado (PDict bd) \<and> map_of bd ''metadata'' = Some (PDict md)
        \<and> map_of bd ''vectors'' = Some rs
        \<and> c \<in> set [''collection_name'', ''backup_date'', ''total_vectors'', ''vector_size'']
        \<and> c \<notin> set (map fst md)
      \<longrightarrow> (\<exists>c'. validar_backup_qdrant (Some b) = Invalido (CampoFaltante c')
                \<and> c' \<notin> set (map fst md))"
    unfolding validar_backup_qdrant_def
    using validar_archivo_campo_faltante [of b bd md "''vectors''" rs c
        "[''collection_name'', ''backup_date'', ''total_vectors'', ''vector_size'']"
        "''total_vectors''" False]
    by blast
  have 7: "es_valido (validar_backup_mongodb (Some (b\<lparr>sha256_hexdigest := h\<rparr>)))
        = es_valido (validar_backup_mongodb (Some b))"
    by (simp only: validar_backup_mongodb_def validar_archivo_hash)
  have 8: "es_valido (validar_backup_qdrant (Some (b\<lparr>sha256_hexdigest := h\<rparr>)))
        = es_valido (validar_backup_qdrant (Some b))"
    by (simp only: validar_backup_qdrant_def validar_archivo_hash)
  from 1 2 3 4 5 6 7 8 show ?thesis by blast
qed

theorem validar_backup_comprobaciones_witness:
  "validar_backup_mongodb (Some backup_corto) = Invalido (Inconsistencia (PInt 1) 0)
   \<and> es_valido (validar_backup_mongodb (Some backup_original))
   \<and> es_valido (validar_backup_mongodb
        (Some (backup_original\<lparr>sha256_hexdigest := sha256_hexdigest backup_alterado\<rparr>)))"
proof -
  let ?bd = "[(''metadata'', metadata_ejemplo), (''documents'', PList [])]"
  let ?md = "[(''collection_name'', PStr ''imagenes_2''), (''database_name'', PStr ''album''),
            (''backup_date'', PStr ''2025-01-01T10:00:00''), (''total_documents'', PInt 1),
            (''mongodb_version'', PStr ''1.0'')]"
  have h: "json_load backup_corto = Cargado (PDict ?bd) \<and> map_of ?bd ''metadata'' = Some (PDict ?md)
        \<and> map_of ?bd ''documents'' = Some (PList [])
        \<and> (\<forall>c \<in> set [''collection_name'', ''database_name'', ''backup_date'',
                       ''total_documents'']. c \<in> set (map fst ?md))
        \<and> map_of ?md ''total_documents'' = Some (PInt 1) \<and> py_int_ne (length ([]::pyval list)) (PInt 1)"
    by (simp add: backup_corto_def metadata_ejemplo_def)
  have v: "es_valido (validar_backup_mongodb (Some backup_original))"
    by (simp add: validar_backup_mongodb_def validar_archivo_def validar_cargado_def
          backup_original_def metadata_ejemplo_def)
  from validar_backup_comprobaciones
         [of "Some backup_original" undefined backup_corto ?bd ?md "[]" "PInt 1" undefined
             undefined undefined] h
  have "validar_backup_mongodb (Some backup_corto) = Invalido (Inconsistencia (PInt 1) 0)"
    by simp
  moreover from validar_backup_comprobaciones
         [of None undefined backup_original undefined undefined undefined undefined undefined
             undefined "sha256_hexdigest backup_alterado"] v
  have "es_valido (validar_backup_mongodb
        (Some (backup_original\<lparr>sha256_hexdigest := sha256_hexdigest backup_alterado\<rparr>)))"
    by simp
  ultimately show ?thesis using v by simp
qed

text \<open>
  The claim as written has a changed file refused because of its digest. The backup whose
  record was altered after it was written has another content and another digest than
  the original, and both validators (here the MongoDB one) report it valid.
\<close>

theorem validar_backup_counterexample:
  "json_load backup_alterado \<noteq> json_load backup_original
   \<and> sha256_hexdigest backup_alterado \<noteq> sha256_hexdigest backup_original
   \<and> validar_backup_mongodb (Some backup_alterado) =
       Valido \<lparr> v_tamano_archivo = 310,
                v_hash_sha256 = ''60303ae22b998861bce3b28f33eec1be758a213c86c93c076dbe9f558c11c752'',
                v_metadata = metadata_ejemplo, v_total = 1 \<rparr>"
  by (simp add: validar_backup_mongodb_def validar_archivo_def validar_cargado_def
        backup_alterado_def backup_original_def metadata_ejemplo_def)

section \<open>Numeric ids in the vector store\<close>

lemma md5_abc: "md5_hexdigest ''abc'' = ''900150983cd24fb0d6963f7d28e17f72''"
  by code_simp

lemma int_hex_abc_8: "int_hex ''90015098'' = Inr 2416005272"
  by code_simp

lemma int_hex_abc_32:
  "int_hex ''900150983cd24fb0d6963f7d28e17f72'' = Inr 191415658344158766168031473277922803570"
  by code_simp

lemma id_insertar_abc: "id_insertar (Some ''abc'') = Inr 2416005272"
  by (simp add: id_insertar_def md5_abc int_hex_abc_8)

lemma id_obtener_abc: "id_obtener (Some ''abc'') = Inr 2416005272"
  by (simp add: id_obtener_def md5_abc int_hex_abc_8)

lemma id_actualizar_abc: "id_actualizar (Some ''abc'') = Inr 2416005272"
  by (simp add: id_actualizar_def md5_abc int_hex_abc_8)

lemma id_eliminar_abc:
  "id_eliminar (Some ''abc'') = Inr 191415658344158766168031473277922803570"
  by (simp add: id_eliminar_def md5_abc int_hex_abc_32)

lemma falla_ejemplo: "falla entorno_ejemplo op = None"
  by (simp add: entorno_ejemplo_def sin_fallos_def)

lemma id_hash_ejemplo: "id_hash documento_ejemplo = Some ''abc''"
  by (simp add: documento_ejemplo_def)

text \<open>
  C1. Insert, retrieve and update derive the same id from a key: the first 32 bits of
  its MD5 digest. Delete takes the whole 128-bit digest. For the key \<open>abc\<close> the point is
  stored under 2416005272 and the delete addresses
  191415658344158766168031473277922803570: after insert and delete the point is still
  there and is still retrieved.
\<close>

theorem eliminar_vector_otro_id:
  "id_insertar k = id_obtener k \<and> id_obtener k = id_actualizar k
   \<and> id_insertar (Some ''abc'') = Inr 2416005272
   \<and> id_eliminar (Some ''abc'') = Inr 191415658344158766168031473277922803570
   \<and> (case insertar_vector entorno_ejemplo documento_ejemplo [0.5, 0.25] ''playa'' mundo_vacio of
        (r1, w1) \<Rightarrow>
          (case eliminar_vector entorno_ejemplo (Some ''abc'') w1 of
             (r2, w2) \<Rightarrow>
               r1 = Inr ''2416005272'' \<and> r2 = Inr ()
               \<and> puntos w2 2416005272 = puntos w1 2416005272
               \<and> puntos w2 2416005272 \<noteq> None
               \<and> fst (obtener_por_id entorno_ejemplo (Some ''abc'') w2) \<noteq> Inr None))"
proof -
  have s: "str_int 2416005272 = ''2416005272''" by code_simp
  have "id_insertar k = id_obtener k \<and> id_obtener k = id_actualizar k"
    by (simp add: id_insertar_def id_obtener_def id_actualizar_def)
  then show ?thesis
    by (simp add: insertar_vector_def eliminar_vector_def obtener_por_id_def upsert_def
          anotar_def id_insertar_abc id_eliminar_abc id_obtener_abc falla_ejemplo
          id_hash_ejemplo mundo_vacio_def s Let_def)
qed


section \<open>The payload of a point after an update\<close>

text \<open>
  C5. The insert path stores the full payload. Processing the same record again finds
  the point and takes the update path, which upserts a point whose payload is the
  description alone: the name and every other attribute of the record are gone from the
  vector store.
\<close>

theorem actualizar_vector_pierde_payload:
  "(case insertar_vector entorno_ejemplo documento_ejemplo [0.5, 0.25] ''playa'' mundo_vacio of
      (r1, w1) \<Rightarrow>
        puntos w1 2416005272 =
          Some \<lparr> p_vector = [0.5, 0.25],
                 p_payload = payload_completo documento_ejemplo [0.5, 0.25] ''playa'' \<rparr>
        \<and> map_of (payload_completo documento_ejemplo [0.5, 0.25] ''playa'') ''nombre''
            = Some (PStr ''playa.jpg'')
        \<and> (case procesar_documento entorno_ejemplo None documento_ejemplo w1 of
             (r2, w2) \<Rightarrow>
               (\<exists>doc'. r2 = Inr doc')
               \<and> puntos w2 2416005272 =
                   Some \<lparr> p_vector = [0.5, 0.25],
                          p_payload = [(''descripcion_semantica'', PStr ''archivo: playa.jpg'')] \<rparr>
               \<and> map_of [(''descripcion_semantica'', PStr ''archivo: playa.jpg'')] ''nombre''
                   = None))"
  by (simp add: insertar_vector_def procesar_documento_def guardar_en_qdrant_def
        obtener_por_id_def actualizar_vector_def actualizar_embedding_def upsert_def
        consultar_cancel_def anotar_def id_insertar_abc id_obtener_abc id_actualizar_abc
        falla_ejemplo id_hash_ejemplo mundo_vacio_def Let_def entorno_ejemplo_def
        texto_ejemplo_def vector_ejemplo_def sin_fallos_def payload_completo_def
        documento_ejemplo_def)

section \<open>Insertion by path\<close>







section \<open>A record whose vector write fails\<close>

lemma ids_iguales: "id_obtener k = id_insertar k" "id_actualizar k = id_insertar k"
  by (simp_all add: id_insertar_def id_obtener_def id_actualizar_def)

text \<open>
  C7. Take a record whose processing is not cancelled, whose embedding is produced and
  whose primary-store write goes through, and let the upsert of its point fail with
  \<open>e\<close>. Then \<open>procesar_documento\<close> returns the record with its description and
  embedding; the primary store has the write, the vector store is unchanged; the log
  gains, in this order, the embedding call, the primary-store write, the look-up of the
  point, one upsert and the warning with \<open>e\<close> (one attempt, no retry); and the batch
  counts the record as succeeded, not as failed.
\<close>

theorem procesar_documento_fallo_qdrant:
  assumes sin_cancelar: "\<forall>f. cancel_callback = Some f \<longrightarrow>
            \<not> f (consultas w) \<and> \<not> f (consultas w + 1) \<and> \<not> f (consultas w + 2)"
    and texto: "texto = crear_texto_desde_campos env doc"
    and embed_ok: "falla env (OpEmbed texto) = None"
    and mongo_ok: "falla env (OpActualizarEmbedding (py_opt (id_hash doc))) = None"
    and id_punto: "id_insertar (id_hash doc) = Inr n"
    and retrieve_ok: "falla env (OpRetrieve n) = None"
    and upsert_falla: "falla env (OpUpsert n) = Some e"
  shows "\<exists>doc' w'.
           procesar_documento env cancel_callback doc w = (Inr doc', w')
           \<and> descripcion_semantica doc' = Some texto
           \<and> embedding doc' = Some (embed_query env texto)
           \<and> coleccion w' =
               update_one ''_id'' (py_opt (id_hash doc))
                 [(''embedding'', PList (map PFloat (embed_query env texto))),
                  (''descripcion_semantica'', PStr texto)] (coleccion w)
           \<and> puntos w' = puntos w
           \<and> registro w' = registro w @
                [Llamada (OpEmbed texto),
                 Llamada (OpActualizarEmbedding (py_opt (id_hash doc))),
                 Llamada (OpRetrieve n), Llamada (OpUpsert n), AvisoQdrant e]
           \<and> length (filter es_upsert (registro w')) = length (filter es_upsert (registro w)) + 1
           \<and> procesar_uno env cancel_callback doc (c, w) =
               (c\<lparr>documentos_exitosos := documentos_exitosos c + 1\<rparr>, marcar_qdrant env doc w')"
proof (cases cancel_callback)
  case None
  show ?thesis
    using assms(2-) None
    by (cases "puntos w n")
       (simp_all add: procesar_documento_def procesar_uno_def consultar_cancel_def
          actualizar_embedding_def guardar_en_qdrant_def obtener_por_id_def
          actualizar_vector_def insertar_vector_def upsert_def anotar_def ids_iguales Let_def)
next
  case (Some f)
  with sin_cancelar have "\<not> f (consultas w)" "\<not> f (Suc (consultas w))"
    "\<not> f (Suc (Suc (consultas w)))"
    by simp_all
  then show ?thesis
    using assms(2-) Some
    by (cases "puntos w n")
       (simp_all add: procesar_documento_def procesar_uno_def consultar_cancel_def
          actualizar_embedding_def guardar_en_qdrant_def obtener_por_id_def
          actualizar_vector_def insertar_vector_def upsert_def anotar_def ids_iguales Let_def)
qed


theorem procesar_documento_fallo_qdrant_witness:
  "\<exists>doc' w'.
     procesar_documento (entorno_ejemplo\<lparr>falla := falla_upsert\<rparr>) None documento_ejemplo
         mundo_ejemplo = (Inr doc', w')
     \<and> puntos w' = Map.empty
     \<and> registro w' =
         [Llamada (OpEmbed ''archivo: playa.jpg''),
          Llamada (OpActualizarEmbedding (PStr ''abc'')),
          Llamada (OpRetrieve 2416005272), Llamada (OpUpsert 2416005272),
          AvisoQdrant (Exception ''timeout'')]
     \<and> fst (procesar_uno (entorno_ejemplo\<lparr>falla := falla_upsert\<rparr>) None documento_ejemplo
            (\<lparr>documentos_procesados = 0, documentos_exitosos = 0, documentos_errores = 0\<rparr>,
             mundo_ejemplo))
         = \<lparr>documentos_procesados = 0, documentos_exitosos = 1, documentos_errores = 0\<rparr>"
proof -
  let ?env = "entorno_ejemplo\<lparr>falla := falla_upsert\<rparr>"
  let ?c = "\<lparr>documentos_procesados = 0, documentos_exitosos = 0, documentos_errores = 0\<rparr>"
  have h1: "\<forall>f. (None :: (nat \<Rightarrow> bool) option) = Some f \<longrightarrow>
            \<not> f (consultas mundo_ejemplo) \<and> \<not> f (consultas mundo_ejemplo + 1)
            \<and> \<not> f (consultas mundo_ejemplo + 2)"
    by simp
  have h2: "''archivo: playa.jpg'' = crear_texto_desde_campos ?env documento_ejemplo"
    by (simp add: entorno_ejemplo_def texto_ejemplo_def documento_ejemplo_def)
  have h3: "falla ?env (OpEmbed ''archivo: playa.jpg'') = None"
    by (simp add: falla_upsert_def)
  have h4: "falla ?env (OpActualizarEmbedding (py_opt (id_hash documento_ejemplo))) = None"
    by (simp add: falla_upsert_def)
  have h5: "id_insertar (id_hash documento_ejemplo) = Inr 2416005272"
    by (simp only: id_hash_ejemplo id_insertar_abc)
  have h6: "falla ?env (OpRetrieve 2416005272) = None"
    by (simp add: falla_upsert_def)
  have h7: "falla ?env (OpUpsert 2416005272) = Some (Exception ''timeout'')"
    by (simp add: falla_upsert_def)
  from procesar_documento_fallo_qdrant [OF h1 h2 h3 h4 h5 h6 h7, of ?c]
  show ?thesis
    by (auto simp: mundo_ejemplo_def id_hash_ejemplo)
qed

section \<open>The batch loop without a cancellation callback\<close>

declare bucle_lotes.simps [simp del]

lemma consultar_nunca:
  "consultar_cancel (Some nunca) w = (False, w\<lparr>consultas := Suc (consultas w)\<rparr>)"
  by (simp add: consultar_cancel_def nunca_def)

lemma bucle_documentos_nunca: "fst (bucle_documentos env (Some nunca) docs s) = False"
  by (induction docs arbitrary: s) (simp_all add: consultar_nunca split: prod.splits)

lemma bucle_lotes_fin:
  "b = 0 \<or> length docs \<le> i \<Longrightarrow> bucle_lotes env cb b docs i s = (False, s)"
  by (subst bucle_lotes.simps) simp

lemma bucle_lotes_paso_nunca:
  assumes "0 < b" "i < length docs"
    and "bucle_documentos env (Some nunca) (take b (drop i docs))
           (c, w\<lparr>consultas := Suc (consultas w)\<rparr>) = (False, c2, w2)"
  shows "bucle_lotes env (Some nunca) b docs i (c, w) =
           bucle_lotes env (Some nunca) b docs (i + b)
             (c2\<lparr>documentos_procesados :=
                   documentos_procesados c2 + length (take b (drop i docs))\<rparr>, w2)"
  using assms by (subst bucle_lotes.simps) (simp add: consultar_nunca)

lemma bucle_documentos_nunca_forma:
  "\<exists>c2 w2. bucle_documentos env (Some nunca) docs s = (False, c2, w2)"
  using bucle_documentos_nunca [of env docs s]
  by (cases "bucle_documentos env (Some nunca) docs s") auto

lemma bucle_lotes_nunca: "fst (bucle_lotes env (Some nunca) b docs i s) = False"
proof (induction "length docs - i" arbitrary: i s rule: less_induct)
  case less
  show ?case
  proof (cases "b = 0 \<or> length docs \<le> i")
    case True
    then show ?thesis by (simp add: bucle_lotes_fin)
  next
    case False
    obtain c w where s: "s = (c, w)" by (cases s)
    obtain c2 w2 where r: "bucle_documentos env (Some nunca) (take b (drop i docs))
           (c, w\<lparr>consultas := Suc (consultas w)\<rparr>) = (False, c2, w2)"
      using bucle_documentos_nunca_forma by blast
    have "length docs - (i + b) < length docs - i" using False by arith
    from less [OF this] show ?thesis
      using False by (simp add: s bucle_lotes_paso_nunca [OF _ _ r])
  qed
qed

text \<open>
  C10. Without a callback the operation either raises (the candidates could not be
  fetched, or the batch size is zero) or returns a result that has no \<open>cancelado\<close>
  entry and reports the three counters with the message of an empty candidate set or
  of a completed run.
\<close>

theorem sin_callback_no_cancela:
  assumes "procesar_coleccion_completa env batch_size None candidatos w = (res, w')"
  shows "(case res of
            Inl e \<Rightarrow> candidatos = Inl e
                       \<or> (e = ValueError \<and> batch_size = 0 \<and> (\<exists>docs. candidatos = Inr docs \<and> docs \<noteq> []))
          | Inr r \<Rightarrow> cancelado r = None
                     \<and> (mensaje r = NoHayDocumentos \<and> total_procesados r = 0
                          \<and> total_exitosos r = 0 \<and> total_errores r = 0
                        \<or> mensaje r = ProcesamientoCompletado (total_exitosos r) (total_errores r)))"
proof (cases candidatos)
  case (Inl e)
  with assms show ?thesis by (auto simp: procesar_coleccion_completa_def)
next
  case (Inr docs)
  let ?b = "if batch_size < 0 then 0 else nat batch_size"
  let ?c = "\<lparr>documentos_procesados = 0, documentos_exitosos = 0, documentos_errores = 0\<rparr>"
  obtain c1 w1 where "bucle_lotes env (Some nunca) ?b docs 0 (?c, w) = (False, c1, w1)"
    using bucle_lotes_nunca [of env ?b docs 0 "(?c, w)"]
    by (cases "bucle_lotes env (Some nunca) ?b docs 0 (?c, w)") auto
  with assms Inr show ?thesis
    by (auto simp: procesar_coleccion_completa_def split: if_splits)
qed

theorem sin_callback_no_cancela_witness:
  "\<exists>r w'. procesar_coleccion_completa entorno_ejemplo 50 None (Inr [documento_ejemplo])
             mundo_ejemplo = (Inr r, w')
          \<and> cancelado r = None"
proof -
  obtain res w' where p: "procesar_coleccion_completa entorno_ejemplo 50 None
      (Inr [documento_ejemplo]) mundo_ejemplo = (res, w')"
    by (cases "procesar_coleccion_completa entorno_ejemplo 50 None
      (Inr [documento_ejemplo]) mundo_ejemplo")
  from sin_callback_no_cancela [OF p] show ?thesis
    using p by (cases res) auto
qed

end
